theory Spec2Isabelle
  imports Main
begin

section \<open>Veterinary clinic backend: data model\<close>

text \<open>
  The backend is a set of CRUD classes over SQLAlchemy models. A table is the list of
  its rows in storage order, so that \<open>query.filter(...).first()\<close> is \<open>find\<close> on the
  list. A Python \<open>str\<close> is a \<open>string\<close> whose elements stand for the characters that
  Python's \<open>len\<close> counts; the letter n-tilde of the column \<open>contrasena\<close> and of the
  messages is written \<open>n\<close>. Identifiers are Python integers (\<open>int\<close>). A
  \<open>datetime\<close> is an abstract instant, compared only for equality by the code modelled
  here; \<open>datetime.now()\<close> is the parameter \<open>now\<close> of the operation that reads the clock.
\<close>

type_synonym datetime = int

text \<open>
  The SQLAlchemy models of \<open>app/models\<close>. Each record has the columns that the
  operations below read or write; record fields are global names in HOL, so a column
  that several tables share carries a table prefix. A nullable column that the code may
  leave empty is an \<open>option\<close>. \<open>peso_mascota\<close> and \<open>peso_momento\<close> are
  \<open>Numeric(5, 2)\<close> columns, held as hundredths of a kilogram.
\<close>

record usuario =
  id_usuario :: int
  username :: string
  contrasena :: string
  tipo_usuario :: string
  usuario_estado :: string

record administrador =
  id_administrador :: int
  adm_id_usuario :: int

record veterinario =
  id_veterinario :: int
  vet_id_usuario :: int
  disposicion :: string

record recepcionista =
  id_recepcionista :: int
  rec_id_usuario :: int

record mascota =
  id_mascota :: int

record solicitud_atencion =
  id_solicitud :: int
  sol_id_mascota :: "int option"
  sol_id_recepcionista :: "int option"
  fecha_hora_solicitud :: "datetime option"
  tipo_solicitud :: string
  solicitud_estado :: string

record triaje =
  id_triaje :: int
  tri_id_solicitud :: int
  peso_mascota :: int

record consulta =
  id_consulta :: int
  con_id_triaje :: int
  con_id_veterinario :: int
  tipo_consulta :: string
  fecha_consulta :: "datetime option"
  motivo_consulta :: "string option"
  sintomas_observados :: "string option"
  diagnostico_preliminar :: "string option"
  con_observaciones :: "string option"
  condicion_general :: string
  es_seguimiento :: bool

record diagnostico =
  id_diagnostico :: int
  dia_id_consulta :: int

record historial_clinico =
  id_historial :: int
  his_id_mascota :: int
  his_id_consulta :: "int option"
  his_id_diagnostico :: "int option"
  his_id_tratamiento :: "int option"
  his_id_veterinario :: "int option"
  fecha_evento :: "datetime option"
  tipo_evento :: string
  edad_meses :: "int option"
  descripcion_evento :: string
  peso_momento :: "int option"
  his_observaciones :: "string option"

record cita =
  id_cita :: int
  fecha_hora_programada :: datetime
  estado_cita :: string

text \<open>The database: one list of rows per table.\<close>

record db =
  usuarios :: "usuario list"
  administradores :: "administrador list"
  veterinarios :: "veterinario list"
  recepcionistas :: "recepcionista list"
  mascotas :: "mascota list"
  solicitudes :: "solicitud_atencion list"
  triajes :: "triaje list"
  consultas :: "consulta list"
  diagnosticos :: "diagnostico list"
  historiales :: "historial_clinico list"
  citas :: "cita list"

section \<open>The ORM session\<close>

text \<open>
  \<open>db.commit()\<close> either makes the pending change durable or raises. Which of the two
  happens is decided by the database engine, not by the code of this repository, so it
  is the parameter \<open>commit_ok\<close>: the states that the engine accepts. A commit that
  raises leaves the stored state as it was before the pending change.
\<close>

datatype error = DBError | ValidationError | LookupError

definition commit :: "(db \<Rightarrow> bool) \<Rightarrow> db \<Rightarrow> error + db" where
  "commit commit_ok pending = (if commit_ok pending then Inr pending else Inl DBError)"

text \<open>
  \<open>db.refresh(obj)\<close> after a commit reads the row back. SQLAlchemy's \<open>Enum\<close> type
  writes a string as it is given, but on reading it looks the stored text up among the
  values declared for the column and raises \<open>LookupError\<close> for any other text. So
  after a string was assigned to an \<open>Enum\<close> column and committed, the refresh returns
  the object only for a declared value; otherwise it raises, with the commit already
  done.
\<close>

definition refresh :: "string list \<Rightarrow> string \<Rightarrow> 'a \<Rightarrow> error + 'a" where
  "refresh enum_values stored obj =
     (if stored \<in> set enum_values then Inr obj else Inl LookupError)"

text \<open>
  The values declared for \<open>SolicitudAtencion.estado\<close> (\<open>estado_solicitud_enum\<close>) and
  for \<open>Veterinario.disposicion\<close> (\<open>disposicion_enum\<close>) in \<open>app/models\<close>.
\<close>

definition estado_solicitud_enum :: "string list" where
  "estado_solicitud_enum =
     [''Pendiente'', ''En triaje'', ''En atencion'', ''Completada'', ''Cancelada'']"

definition disposicion_enum :: "string list" where
  "disposicion_enum = [''Ocupado'', ''Libre'']"

text \<open>
  Mutating the object that \<open>first()\<close> returned and committing rewrites that one row:
  the first row of the table that satisfies the filter.
\<close>

fun update_first :: "('a \<Rightarrow> bool) \<Rightarrow> ('a \<Rightarrow> 'a) \<Rightarrow> 'a list \<Rightarrow> 'a list" where
  "update_first P f [] = []"
| "update_first P f (x # xs) = (if P x then f x # xs else x # update_first P f xs)"

text \<open>
  An \<open>autoincrement\<close> primary key is assigned by the engine: one more than the largest
  key of the table, and 1 in an empty table. \<open>CRUDBase.create\<close> passes its input
  through \<open>jsonable_encoder\<close>, which writes a datetime as its ISO text; the engine
  reads that text back as the same instant, so the value is stored as it was given.
\<close>

definition next_id :: "int list \<Rightarrow> int" where
  "next_id ids = fold max ids 0 + 1"

text \<open>The responses of a route handler: a status with a body, or an \<open>HTTPException\<close>.\<close>

datatype 'a response = Response nat 'a | HTTPException nat string

section \<open>Authorization: \<open>app/crud/auth_crud.py\<close>\<close>

text \<open>
  The dictionary literal of \<open>CRUDAuth._get_user_permissions\<close>, in source order. Its
  keys are pairwise distinct, so \<open>dict.get\<close> is \<open>map_of\<close> on the association list.
\<close>

definition permissions :: "(string \<times> (string \<times> bool) list) list" where
  "permissions =
    [(''Administrador'',
       [(''ver_dashboard'', True),
        (''gestionar_usuarios'', True),
        (''gestionar_clientes'', True),
        (''gestionar_mascotas'', True),
        (''gestionar_veterinarios'', True),
        (''gestionar_recepcionistas'', True),
        (''ver_reportes'', True),
        (''gestionar_catalogos'', True),
        (''realizar_triaje'', True),
        (''realizar_consultas'', True),
        (''gestionar_citas'', True),
        (''ver_historial'', True),
        (''configurar_sistema'', True)]),
     (''Veterinario'',
       [(''ver_dashboard'', True),
        (''gestionar_usuarios'', False),
        (''gestionar_clientes'', True),
        (''gestionar_mascotas'', True),
        (''gestionar_veterinarios'', False),
        (''gestionar_recepcionistas'', False),
        (''ver_reportes'', True),
        (''gestionar_catalogos'', False),
        (''realizar_triaje'', True),
        (''realizar_consultas'', True),
        (''gestionar_citas'', True),
        (''ver_historial'', True),
        (''configurar_sistema'', False)]),
     (''Recepcionista'',
       [(''ver_dashboard'', False),
        (''gestionar_usuarios'', False),
        (''gestionar_clientes'', True),
        (''gestionar_mascotas'', True),
        (''gestionar_veterinarios'', False),
        (''gestionar_recepcionistas'', False),
        (''ver_reportes'', False),
        (''gestionar_catalogos'', False),
        (''realizar_triaje'', False),
        (''realizar_consultas'', False),
        (''gestionar_citas'', True),
        (''ver_historial'', False),
        (''configurar_sistema'', False)])]"

text \<open>\<open>return permissions.get(tipo_usuario, {})\<close>\<close>

definition get_user_permissions :: "string \<Rightarrow> (string \<times> bool) list" where
  "get_user_permissions tipo =
     (case map_of permissions tipo of None \<Rightarrow> [] | Some permisos \<Rightarrow> permisos)"

text \<open>\<open>return permisos.get(permission, False)\<close>\<close>

definition verify_permission :: "string \<Rightarrow> string \<Rightarrow> bool" where
  "verify_permission user_type permission =
     (case map_of (get_user_permissions user_type) permission of
        None \<Rightarrow> False
      | Some allowed \<Rightarrow> allowed)"

section \<open>Authentication: \<open>app/crud/auth_crud.py\<close>\<close>

datatype perfil =
  PerfilAdministrador administrador
| PerfilVeterinario veterinario
| PerfilRecepcionista recepcionista

record auth_info =
  ai_usuario :: usuario
  ai_perfil :: "perfil option"
  ai_tipo_usuario :: string
  ai_permisos :: "(string \<times> bool) list"

text \<open>\<open>CRUDAuth._get_user_profile\<close>\<close>

definition get_user_profile :: "db \<Rightarrow> usuario \<Rightarrow> perfil option" where
  "get_user_profile d u =
     (if tipo_usuario u = ''Administrador'' then
        map_option PerfilAdministrador
          (find (\<lambda>a. adm_id_usuario a = id_usuario u) (administradores d))
      else if tipo_usuario u = ''Veterinario'' then
        map_option PerfilVeterinario
          (find (\<lambda>v. vet_id_usuario v = id_usuario u) (veterinarios d))
      else if tipo_usuario u = ''Recepcionista'' then
        map_option PerfilRecepcionista
          (find (\<lambda>r. rec_id_usuario r = id_usuario u) (recepcionistas d))
      else None)"

text \<open>
  \<open>CRUDAuth.authenticate_user\<close>: the first row with the username and estado
  \<open>Activo\<close>, then \<open>if not usuario or usuario.contrasena != password: return None\<close>.
\<close>

definition authenticate_user :: "db \<Rightarrow> string \<Rightarrow> string \<Rightarrow> auth_info option" where
  "authenticate_user d uname password =
     (case find (\<lambda>u. username u = uname \<and> usuario_estado u = ''Activo'') (usuarios d) of
        None \<Rightarrow> None
      | Some u \<Rightarrow>
          if contrasena u \<noteq> password then None
          else Some \<lparr>ai_usuario = u,
                     ai_perfil = get_user_profile d u,
                     ai_tipo_usuario = tipo_usuario u,
                     ai_permisos = get_user_permissions (tipo_usuario u)\<rparr>)"

text \<open>\<open>CRUDAuth.change_password\<close>\<close>

definition change_password ::
  "(db \<Rightarrow> bool) \<Rightarrow> db \<Rightarrow> int \<Rightarrow> string \<Rightarrow> string \<Rightarrow> error + (db \<times> bool \<times> string)" where
  "change_password commit_ok d user_id current_password new_password =
     (case find (\<lambda>u. id_usuario u = user_id) (usuarios d) of
        None \<Rightarrow> Inr (d, False, ''Usuario no encontrado'')
      | Some u \<Rightarrow>
          if contrasena u \<noteq> current_password then
            Inr (d, False, ''Contrasena actual incorrecta'')
          else if length new_password < 3 then
            Inr (d, False, ''La nueva contrasena debe tener al menos 3 caracteres'')
          else
            (case commit commit_ok
                    (d\<lparr>usuarios := update_first (\<lambda>u. id_usuario u = user_id)
                                     (\<lambda>u. u\<lparr>contrasena := new_password\<rparr>) (usuarios d)\<rparr>) of
               Inl e \<Rightarrow> Inl e
             | Inr d' \<Rightarrow> Inr (d', True, ''Contrasena cambiada exitosamente'')))"

text \<open>\<open>CRUDAuth.reset_password\<close>\<close>

definition reset_password ::
  "(db \<Rightarrow> bool) \<Rightarrow> db \<Rightarrow> string \<Rightarrow> string \<Rightarrow> error + (db \<times> bool \<times> string)" where
  "reset_password commit_ok d uname new_password =
     (case find (\<lambda>u. username u = uname) (usuarios d) of
        None \<Rightarrow> Inr (d, False, ''Usuario no encontrado'')
      | Some u \<Rightarrow>
          if length new_password < 3 then
            Inr (d, False, ''La contrasena debe tener al menos 3 caracteres'')
          else
            (case commit commit_ok
                    (d\<lparr>usuarios := update_first (\<lambda>u. username u = uname)
                                     (\<lambda>u. u\<lparr>contrasena := new_password\<rparr>) (usuarios d)\<rparr>) of
               Inl e \<Rightarrow> Inl e
             | Inr d' \<Rightarrow> Inr (d', True, ''Contrasena reseteada exitosamente'')))"

section \<open>Attention requests: \<open>app/crud/consulta_crud.py\<close> and \<open>app/api/v1/endpoints/consultas.py\<close>\<close>

text \<open>
  \<open>CRUDBase.get\<close> picks the id column by name and returns the first row with that id.
  For \<open>SolicitudAtencion\<close> the column found is \<open>id_solicitud\<close>, for every other model
  used here it is \<open>id_\<close> followed by the lower-case table name.
\<close>

definition solicitud_atencion_get :: "db \<Rightarrow> int \<Rightarrow> solicitud_atencion option" where
  "solicitud_atencion_get d i = find (\<lambda>s. id_solicitud s = i) (solicitudes d)"

definition mascota_get :: "db \<Rightarrow> int \<Rightarrow> mascota option" where
  "mascota_get d i = find (\<lambda>m. id_mascota m = i) (mascotas d)"

definition recepcionista_get :: "db \<Rightarrow> int \<Rightarrow> recepcionista option" where
  "recepcionista_get d i = find (\<lambda>r. id_recepcionista r = i) (recepcionistas d)"

definition triaje_get :: "db \<Rightarrow> int \<Rightarrow> triaje option" where
  "triaje_get d i = find (\<lambda>t. id_triaje t = i) (triajes d)"

definition veterinario_get :: "db \<Rightarrow> int \<Rightarrow> veterinario option" where
  "veterinario_get d i = find (\<lambda>v. id_veterinario v = i) (veterinarios d)"

definition cita_get :: "db \<Rightarrow> int \<Rightarrow> cita option" where
  "cita_get d i = find (\<lambda>c. id_cita c = i) (citas d)"

text \<open>
  \<open>CRUDSolicitudAtencion.cambiar_estado\<close>: \<open>if solicitud:\<close> assigns, commits and
  refreshes; the (possibly absent) object is returned. The result is the stored state
  together with the value returned or the exception raised: an exception of the commit
  leaves the state as it was, an exception of the refresh comes after the commit.
\<close>

definition cambiar_estado ::
  "(db \<Rightarrow> bool) \<Rightarrow> db \<Rightarrow> int \<Rightarrow> string
     \<Rightarrow> db \<times> (error + solicitud_atencion option)" where
  "cambiar_estado commit_ok d solicitud_id nuevo_estado =
     (case solicitud_atencion_get d solicitud_id of
        None \<Rightarrow> (d, Inr None)
      | Some solicitud \<Rightarrow>
          (case commit commit_ok
                  (d\<lparr>solicitudes := update_first (\<lambda>s. id_solicitud s = solicitud_id)
                                      (\<lambda>s. s\<lparr>solicitud_estado := nuevo_estado\<rparr>)
                                      (solicitudes d)\<rparr>) of
             Inl e \<Rightarrow> (d, Inl e)
           | Inr d' \<Rightarrow>
               (d', refresh estado_solicitud_enum nuevo_estado
                      (Some (solicitud\<lparr>solicitud_estado := nuevo_estado\<rparr>)))))"




text \<open>
  The request body \<open>SolicitudAtencionCreate\<close>, after validation by the framework.
  \<open>fecha_hora_solicitud\<close> is \<open>Optional[datetime] = None\<close>.
\<close>

record solicitud_atencion_create =
  sc_id_mascota :: int
  sc_id_recepcionista :: int
  sc_tipo_solicitud :: string
  sc_fecha_hora_solicitud :: "datetime option"

text \<open>
  \<open>dict.get(key, default)\<close> on a dictionary whose values may be Python's \<open>None\<close>
  (\<open>None\<close> of the value type \<open>'v option\<close>): the default is returned only for a key
  that is absent from the dictionary.
\<close>

definition dict_get :: "('k \<rightharpoonup> 'v option) \<Rightarrow> 'k \<Rightarrow> 'v option \<Rightarrow> 'v option" where
  "dict_get dict key dflt = (case dict key of None \<Rightarrow> dflt | Some v \<Rightarrow> v)"

text \<open>
  \<open>CRUDBase.create\<close> for \<open>SolicitudAtencion\<close>: the row gets its key from the engine
  and is committed.
\<close>

definition solicitud_atencion_create ::
  "(db \<Rightarrow> bool) \<Rightarrow> db \<Rightarrow> int \<Rightarrow> int \<Rightarrow> string \<Rightarrow> datetime option \<Rightarrow> string
     \<Rightarrow> error + (db \<times> solicitud_atencion)" where
  "solicitud_atencion_create commit_ok d mascota_id recepcionista_id tipo fecha estado =
     (let db_obj = \<lparr>id_solicitud = next_id (map id_solicitud (solicitudes d)),
                     sol_id_mascota = Some mascota_id,
                     sol_id_recepcionista = Some recepcionista_id,
                     fecha_hora_solicitud = fecha,
                     tipo_solicitud = tipo,
                     solicitud_estado = estado\<rparr>
      in case commit commit_ok (d\<lparr>solicitudes := solicitudes d @ [db_obj]\<rparr>) of
           Inl e \<Rightarrow> Inl e
         | Inr d' \<Rightarrow> Inr (d', db_obj))"

text \<open>
  The route \<open>POST /solicitudes/\<close>. \<open>solicitud_data.dict()\<close> has a key for every field
  of the schema, \<open>fecha_hora_solicitud\<close> included, with the value \<open>None\<close> when the
  request left it out.
\<close>

definition create_solicitud_atencion ::
  "(db \<Rightarrow> bool) \<Rightarrow> datetime \<Rightarrow> db \<Rightarrow> solicitud_atencion_create
     \<Rightarrow> db \<times> solicitud_atencion response" where
  "create_solicitud_atencion commit_ok now d solicitud_data =
     (case mascota_get d (sc_id_mascota solicitud_data) of
        None \<Rightarrow> (d, HTTPException 400 ''Mascota no encontrada'')
      | Some mascota_obj \<Rightarrow>
     (case recepcionista_get d (sc_id_recepcionista solicitud_data) of
        None \<Rightarrow> (d, HTTPException 400 ''Recepcionista no encontrada'')
      | Some recep_obj \<Rightarrow>
          (let solicitud_dict =
                 [''fecha_hora_solicitud'' \<mapsto> sc_fecha_hora_solicitud solicitud_data];
               fecha = dict_get solicitud_dict ''fecha_hora_solicitud'' (Some now)
           in case solicitud_atencion_create commit_ok d
                     (sc_id_mascota solicitud_data) (sc_id_recepcionista solicitud_data)
                     (sc_tipo_solicitud solicitud_data) fecha ''Pendiente'' of
                Inl e \<Rightarrow> (d, HTTPException 500 ''Error al crear solicitud: '')
              | Inr (d', nueva_solicitud) \<Rightarrow> (d', Response 201 nueva_solicitud))))"

section \<open>Appointments: \<open>CRUDCita\<close> in \<open>app/crud/consulta_crud.py\<close>\<close>

text \<open>
  \<open>verificar_disponibilidad\<close>: \<open>if exclude_id:\<close> is Python truthiness, so the
  exclusion filter is applied for an id other than \<open>None\<close> and other than 0.
\<close>

definition verificar_disponibilidad :: "db \<Rightarrow> datetime \<Rightarrow> int option \<Rightarrow> bool" where
  "verificar_disponibilidad d fecha_hora exclude_id =
     (let query = filter (\<lambda>c. fecha_hora_programada c = fecha_hora
                              \<and> estado_cita c = ''Programada'') (citas d);
          query' = (case exclude_id of
                      None \<Rightarrow> query
                    | Some i \<Rightarrow> if i \<noteq> 0 then filter (\<lambda>c. id_cita c \<noteq> i) query else query)
      in find (\<lambda>c. True) query' = None)"

definition cancelar_cita :: "(db \<Rightarrow> bool) \<Rightarrow> db \<Rightarrow> int \<Rightarrow> error + (db \<times> cita option)" where
  "cancelar_cita commit_ok d cita_id =
     (case cita_get d cita_id of
        None \<Rightarrow> Inr (d, None)
      | Some c \<Rightarrow>
          if estado_cita c = ''Programada'' then
            (case commit commit_ok
                    (d\<lparr>citas := update_first (\<lambda>c. id_cita c = cita_id)
                                  (\<lambda>c. c\<lparr>estado_cita := ''Cancelada''\<rparr>) (citas d)\<rparr>) of
               Inl e \<Rightarrow> Inl e
             | Inr d' \<Rightarrow> Inr (d', Some (c\<lparr>estado_cita := ''Cancelada''\<rparr>)))
          else Inr (d, Some c))"

definition marcar_atendida :: "(db \<Rightarrow> bool) \<Rightarrow> db \<Rightarrow> int \<Rightarrow> error + (db \<times> cita option)" where
  "marcar_atendida commit_ok d cita_id =
     (case cita_get d cita_id of
        None \<Rightarrow> Inr (d, None)
      | Some c \<Rightarrow>
          if estado_cita c = ''Programada'' then
            (case commit commit_ok
                    (d\<lparr>citas := update_first (\<lambda>c. id_cita c = cita_id)
                                  (\<lambda>c. c\<lparr>estado_cita := ''Atendida''\<rparr>) (citas d)\<rparr>) of
               Inl e \<Rightarrow> Inl e
             | Inr d' \<Rightarrow> Inr (d', Some (c\<lparr>estado_cita := ''Atendida''\<rparr>)))
          else Inr (d, Some c))"

definition reprogramar_cita ::
  "(db \<Rightarrow> bool) \<Rightarrow> db \<Rightarrow> int \<Rightarrow> datetime \<Rightarrow> error + (db \<times> cita option)" where
  "reprogramar_cita commit_ok d cita_id nueva_fecha_hora =
     (if \<not> verificar_disponibilidad d nueva_fecha_hora (Some cita_id) then Inr (d, None)
      else
        (case cita_get d cita_id of
           None \<Rightarrow> Inr (d, None)
         | Some c \<Rightarrow>
             if estado_cita c = ''Programada'' then
               (case commit commit_ok
                       (d\<lparr>citas := update_first (\<lambda>c. id_cita c = cita_id)
                                     (\<lambda>c. c\<lparr>fecha_hora_programada := nueva_fecha_hora\<rparr>)
                                     (citas d)\<rparr>) of
                  Inl e \<Rightarrow> Inl e
                | Inr d' \<Rightarrow> Inr (d', Some (c\<lparr>fecha_hora_programada := nueva_fecha_hora\<rparr>)))
             else Inr (d, Some c)))"

section \<open>Consultations: \<open>create_consulta\<close> in \<open>app/api/v1/endpoints/consultas.py\<close>\<close>

text \<open>
  The request body \<open>ConsultaCreate\<close>, after validation by the framework (which has
  stripped \<open>tipo_consulta\<close> and checked \<open>condicion_general\<close>).
\<close>

record consulta_create =
  cc_id_triaje :: int
  cc_id_veterinario :: int
  cc_tipo_consulta :: string
  cc_motivo_consulta :: "string option"
  cc_sintomas_observados :: "string option"
  cc_diagnostico_preliminar :: "string option"
  cc_observaciones :: "string option"
  cc_condicion_general :: string
  cc_es_seguimiento :: bool
  cc_fecha_consulta :: "datetime option"

text \<open>\<open>CRUDConsulta.get_by_triaje\<close>\<close>

definition get_by_triaje :: "db \<Rightarrow> int \<Rightarrow> consulta option" where
  "get_by_triaje d triaje_id = find (\<lambda>c. con_id_triaje c = triaje_id) (consultas d)"

text \<open>\<open>CRUDBase.create\<close> for \<open>Consulta\<close>, called with the dictionary of the body.\<close>

definition consulta_create ::
  "(db \<Rightarrow> bool) \<Rightarrow> db \<Rightarrow> consulta_create \<Rightarrow> datetime option \<Rightarrow> error + (db \<times> consulta)" where
  "consulta_create commit_ok d obj_in fecha =
     (let db_obj = \<lparr>id_consulta = next_id (map id_consulta (consultas d)),
                     con_id_triaje = cc_id_triaje obj_in,
                     con_id_veterinario = cc_id_veterinario obj_in,
                     tipo_consulta = cc_tipo_consulta obj_in,
                     fecha_consulta = fecha,
                     motivo_consulta = cc_motivo_consulta obj_in,
                     sintomas_observados = cc_sintomas_observados obj_in,
                     diagnostico_preliminar = cc_diagnostico_preliminar obj_in,
                     con_observaciones = cc_observaciones obj_in,
                     condicion_general = cc_condicion_general obj_in,
                     es_seguimiento = cc_es_seguimiento obj_in\<rparr>
      in case commit commit_ok (d\<lparr>consultas := consultas d @ [db_obj]\<rparr>) of
           Inl e \<Rightarrow> Inl e
         | Inr d' \<Rightarrow> Inr (d', db_obj))"

text \<open>\<open>CRUDVeterinario.cambiar_disposicion\<close> in \<open>app/crud/veterinario_crud.py\<close>\<close>

definition cambiar_disposicion ::
  "(db \<Rightarrow> bool) \<Rightarrow> db \<Rightarrow> int \<Rightarrow> string \<Rightarrow> db \<times> (error + veterinario option)" where
  "cambiar_disposicion commit_ok d veterinario_id nueva_disposicion =
     (case veterinario_get d veterinario_id of
        None \<Rightarrow> (d, Inr None)
      | Some v \<Rightarrow>
          (case commit commit_ok
                  (d\<lparr>veterinarios := update_first (\<lambda>v. id_veterinario v = veterinario_id)
                                       (\<lambda>v. v\<lparr>disposicion := nueva_disposicion\<rparr>)
                                       (veterinarios d)\<rparr>) of
             Inl e \<Rightarrow> (d, Inl e)
           | Inr d' \<Rightarrow>
               (d', refresh disposicion_enum nueva_disposicion
                      (Some (v\<lparr>disposicion := nueva_disposicion\<rparr>)))))"

text \<open>
  Python's \<open>str.strip()\<close>: leading and trailing whitespace is removed. A \<open>char\<close>
  is a code point from 0 to 255; the whitespace of \<open>str.isspace\<close> in that range is
  tab to carriage return, the four separators U+001C to U+001F, the space, U+0085 (next
  line) and U+00A0 (no-break space).
\<close>

definition isspace :: "char \<Rightarrow> bool" where
  "isspace c \<longleftrightarrow> c \<in> {CHR 0x09, CHR 0x0A, CHR 0x0B, CHR 0x0C, CHR 0x0D,
                       CHR 0x1C, CHR 0x1D, CHR 0x1E, CHR 0x1F, CHR 0x20,
                       CHR 0x85, CHR 0xA0}"

definition strip :: "string \<Rightarrow> string" where
  "strip s = rev (dropWhile isspace (rev (dropWhile isspace s)))"

text \<open>
  The schema \<open>HistorialClinicoCreate\<close> of \<open>app/schemas/consulta_schema.py\<close> and its
  two validators, which return the stripped text or raise.
\<close>

record historial_clinico_create =
  hc_id_mascota :: int
  hc_tipo_evento :: string
  hc_descripcion_evento :: string
  hc_id_consulta :: "int option"
  hc_id_diagnostico :: "int option"
  hc_id_tratamiento :: "int option"
  hc_id_veterinario :: "int option"
  hc_edad_meses :: "int option"
  hc_peso_momento :: "int option"
  hc_observaciones :: "string option"
  hc_fecha_evento :: "datetime option"

definition validate_tipo_evento :: "string \<Rightarrow> error + string" where
  "validate_tipo_evento v = (if length (strip v) < 4 then Inl ValidationError else Inr (strip v))"

definition validate_descripcion_evento :: "string \<Rightarrow> error + string" where
  "validate_descripcion_evento v =
     (if length (strip v) < 5 then Inl ValidationError else Inr (strip v))"

text \<open>\<open>CRUDBase.create\<close> for \<open>HistorialClinico\<close>.\<close>

definition historial_clinico_create ::
  "(db \<Rightarrow> bool) \<Rightarrow> db \<Rightarrow> historial_clinico_create \<Rightarrow> datetime option
     \<Rightarrow> error + (db \<times> historial_clinico)" where
  "historial_clinico_create commit_ok d obj_in fecha =
     (let db_obj = \<lparr>id_historial = next_id (map id_historial (historiales d)),
                     his_id_mascota = hc_id_mascota obj_in,
                     his_id_consulta = hc_id_consulta obj_in,
                     his_id_diagnostico = hc_id_diagnostico obj_in,
                     his_id_tratamiento = hc_id_tratamiento obj_in,
                     his_id_veterinario = hc_id_veterinario obj_in,
                     fecha_evento = fecha,
                     tipo_evento = hc_tipo_evento obj_in,
                     edad_meses = hc_edad_meses obj_in,
                     descripcion_evento = hc_descripcion_evento obj_in,
                     peso_momento = hc_peso_momento obj_in,
                     his_observaciones = hc_observaciones obj_in\<rparr>
      in case commit commit_ok (d\<lparr>historiales := historiales d @ [db_obj]\<rparr>) of
           Inl e \<Rightarrow> Inl e
         | Inr d' \<Rightarrow> Inr (d', db_obj))"

text \<open>\<open>CRUDHistorialClinico.add_evento\<close>\<close>

definition add_evento ::
  "(db \<Rightarrow> bool) \<Rightarrow> datetime \<Rightarrow> db \<Rightarrow> historial_clinico_create
     \<Rightarrow> error + (db \<times> historial_clinico)" where
  "add_evento commit_ok now d evento_data =
     (let evento_dict = [''fecha_evento'' \<mapsto> hc_fecha_evento evento_data];
          fecha = dict_get evento_dict ''fecha_evento'' (Some now)
      in historial_clinico_create commit_ok d evento_data fecha)"

text \<open>
  \<open>CRUDHistorialClinico.add_evento_consulta\<close>. The caller passes the column
  \<open>id_mascota\<close> of the solicitud, which is nullable, to the required field
  \<open>id_mascota: int\<close> of the schema; \<open>None\<close> there raises a validation error, as a
  failing validator does. The accented letter of the event type is written \<open>e\<close>.
\<close>

definition add_evento_consulta ::
  "(db \<Rightarrow> bool) \<Rightarrow> datetime \<Rightarrow> db \<Rightarrow> int option \<Rightarrow> int \<Rightarrow> int \<Rightarrow> string \<Rightarrow> int option
     \<Rightarrow> error + (db \<times> historial_clinico)" where
  "add_evento_consulta commit_ok now d mascota_id consulta_id veterinario_id descripcion
       peso_actual =
     (case mascota_id of
        None \<Rightarrow> Inl ValidationError
      | Some m \<Rightarrow>
     (case validate_tipo_evento ''Consulta medica'' of
        Inl e \<Rightarrow> Inl e
      | Inr tipo \<Rightarrow>
     (case validate_descripcion_evento descripcion of
        Inl e \<Rightarrow> Inl e
      | Inr descr \<Rightarrow>
          add_evento commit_ok now d
            \<lparr>hc_id_mascota = m,
             hc_tipo_evento = tipo,
             hc_descripcion_evento = descr,
             hc_id_consulta = Some consulta_id,
             hc_id_diagnostico = None,
             hc_id_tratamiento = None,
             hc_id_veterinario = Some veterinario_id,
             hc_edad_meses = None,
             hc_peso_momento = peso_actual,
             hc_observaciones = None,
             hc_fecha_evento = Some now\<rparr>)))"

text \<open>
  Python's \<open>x or y\<close> for an optional string: \<open>None\<close> and the empty string are falsy.
\<close>

definition str_or :: "string option \<Rightarrow> string \<Rightarrow> string" where
  "str_or x y = (case x of None \<Rightarrow> y | Some v \<Rightarrow> if v = [] then y else v)"

text \<open>
  The route \<open>POST /\<close> of the consultas router. Every CRUD call below commits on its
  own; an exception from any of them is caught by \<open>except Exception\<close> and answered
  with status 500, and the handler does nothing else with it.
\<close>

definition create_consulta ::
  "(db \<Rightarrow> bool) \<Rightarrow> datetime \<Rightarrow> db \<Rightarrow> consulta_create \<Rightarrow> db \<times> consulta response" where
  "create_consulta commit_ok now d consulta_data =
     (case triaje_get d (cc_id_triaje consulta_data) of
        None \<Rightarrow> (d, HTTPException 400 ''Triaje no encontrado'')
      | Some triaje_obj \<Rightarrow>
     (case veterinario_get d (cc_id_veterinario consulta_data) of
        None \<Rightarrow> (d, HTTPException 400 ''Veterinario no encontrado'')
      | Some veterinario_obj \<Rightarrow>
     (case get_by_triaje d (cc_id_triaje consulta_data) of
        Some consulta_existente \<Rightarrow>
          (d, HTTPException 400 ''Ya existe una consulta para este triaje'')
      | None \<Rightarrow>
     (let consulta_dict = [''fecha_consulta'' \<mapsto> cc_fecha_consulta consulta_data];
          fecha = dict_get consulta_dict ''fecha_consulta'' (Some now)
      in
     (case consulta_create commit_ok d consulta_data fecha of
        Inl e \<Rightarrow> (d, HTTPException 500 ''Error al crear consulta: '')
      | Inr (d1, nueva_consulta) \<Rightarrow>
     (case cambiar_disposicion commit_ok d1 (cc_id_veterinario consulta_data) ''Ocupado'' of
        (d2, Inl e) \<Rightarrow> (d2, HTTPException 500 ''Error al crear consulta: '')
      | (d2, Inr _) \<Rightarrow>
     (case solicitud_atencion_get d2 (tri_id_solicitud triaje_obj) of
        None \<Rightarrow> (d2, Response 201 nueva_consulta)
      | Some solicitud_obj \<Rightarrow>
     (case cambiar_estado commit_ok d2 (tri_id_solicitud triaje_obj) ''En atencion'' of
        (d3, Inl e) \<Rightarrow> (d3, HTTPException 500 ''Error al crear consulta: '')
      | (d3, Inr _) \<Rightarrow>
     (case add_evento_consulta commit_ok now d3
             (sol_id_mascota solicitud_obj)
             (id_consulta nueva_consulta)
             (cc_id_veterinario consulta_data)
             (''Consulta: '' @ cc_tipo_consulta consulta_data @ ''. Motivo: ''
                @ str_or (cc_motivo_consulta consulta_data) ''No especificado'')
             (if peso_mascota triaje_obj \<noteq> 0 then Some (peso_mascota triaje_obj) else None) of
        Inl e \<Rightarrow> (d3, HTTPException 500 ''Error al crear consulta: '')
      | Inr (d4, _) \<Rightarrow> (d4, Response 201 nueva_consulta))))))))))"

text \<open>An engine that accepts every commit.\<close>

definition accept_all :: "db \<Rightarrow> bool" where
  "accept_all pending = True"

section \<open>Example data\<close>

text \<open>A database with an active veterinarian and an inactive receptionist.\<close>

definition db0 :: db where
  "db0 = \<lparr>usuarios =
            [\<lparr>id_usuario = 1, username = ''ana'', contrasena = ''secreta'',
              tipo_usuario = ''Veterinario'', usuario_estado = ''Activo''\<rparr>,
             \<lparr>id_usuario = 2, username = ''luis'', contrasena = ''clave'',
              tipo_usuario = ''Recepcionista'', usuario_estado = ''Inactivo''\<rparr>],
          administradores = [], veterinarios = [], recepcionistas = [], mascotas = [],
          solicitudes = [], triajes = [], consultas = [], diagnosticos = [],
          historiales = [], citas = []\<rparr>"

text \<open>
  A database with one veterinarian, one receptionist, one pet, a completed solicitud
  with its triaje, and three citas.
\<close>

definition db1 :: db where
  "db1 = \<lparr>usuarios = [], administradores = [],
          veterinarios = [\<lparr>id_veterinario = 1, vet_id_usuario = 1, disposicion = ''Libre''\<rparr>],
          recepcionistas = [\<lparr>id_recepcionista = 1, rec_id_usuario = 2\<rparr>],
          mascotas = [\<lparr>id_mascota = 1\<rparr>],
          solicitudes =
            [\<lparr>id_solicitud = 1, sol_id_mascota = Some 1, sol_id_recepcionista = Some 1,
              fecha_hora_solicitud = Some 100, tipo_solicitud = ''Consulta normal'',
              solicitud_estado = ''Completada''\<rparr>],
          triajes = [\<lparr>id_triaje = 1, tri_id_solicitud = 1, peso_mascota = 1250\<rparr>],
          consultas = [], diagnosticos = [], historiales = [],
          citas =
            [\<lparr>id_cita = 1, fecha_hora_programada = 500, estado_cita = ''Programada''\<rparr>,
             \<lparr>id_cita = 2, fecha_hora_programada = 600, estado_cita = ''Cancelada''\<rparr>,
             \<lparr>id_cita = 3, fecha_hora_programada = 700, estado_cita = ''Programada''\<rparr>]\<rparr>"

text \<open>A request for a solicitud that leaves \<open>fecha_hora_solicitud\<close> out.\<close>

definition solicitud_sin_fecha :: solicitud_atencion_create where
  "solicitud_sin_fecha =
     \<lparr>sc_id_mascota = 1, sc_id_recepcionista = 1, sc_tipo_solicitud = ''Consulta normal'',
      sc_fecha_hora_solicitud = None\<rparr>"

text \<open>A request for a consulta on the triaje and with the veterinarian of \<open>db1\<close>.\<close>

definition consulta_control :: consulta_create where
  "consulta_control =
     \<lparr>cc_id_triaje = 1, cc_id_veterinario = 1, cc_tipo_consulta = ''Control general'',
      cc_motivo_consulta = None, cc_sintomas_observados = None,
      cc_diagnostico_preliminar = None, cc_observaciones = None,
      cc_condicion_general = ''Buena'', cc_es_seguimiento = False,
      cc_fecha_consulta = Some 900\<rparr>"

text \<open>An engine that refuses every state in which some veterinarian is \<open>Ocupado\<close>.\<close>

definition reject_ocupado :: "db \<Rightarrow> bool" where
  "reject_ocupado pending = list_all (\<lambda>v. disposicion v \<noteq> ''Ocupado'') (veterinarios pending)"

section \<open>Properties of the permission table\<close>

lemma get_user_permissions_administrador:
  "get_user_permissions ''Administrador'' = [(''ver_dashboard'', True), (''gestionar_usuarios'', True), (''gestionar_clientes'', True), (''gestionar_mascotas'', True), (''gestionar_veterinarios'', True), (''gestionar_recepcionistas'', True), (''ver_reportes'', True), (''gestionar_catalogos'', True), (''realizar_triaje'', True), (''realizar_consultas'', True), (''gestionar_citas'', True), (''ver_historial'', True), (''configurar_sistema'', True)]"
  by (simp add: get_user_permissions_def permissions_def)

lemma get_user_permissions_veterinario:
  "get_user_permissions ''Veterinario'' = [(''ver_dashboard'', True), (''gestionar_usuarios'', False), (''gestionar_clientes'', True), (''gestionar_mascotas'', True), (''gestionar_veterinarios'', False), (''gestionar_recepcionistas'', False), (''ver_reportes'', True), (''gestionar_catalogos'', False), (''realizar_triaje'', True), (''realizar_consultas'', True), (''gestionar_citas'', True), (''ver_historial'', True), (''configurar_sistema'', False)]"
  by (simp add: get_user_permissions_def permissions_def)

lemma get_user_permissions_recepcionista:
  "get_user_permissions ''Recepcionista'' = [(''ver_dashboard'', False), (''gestionar_usuarios'', False), (''gestionar_clientes'', True), (''gestionar_mascotas'', True), (''gestionar_veterinarios'', False), (''gestionar_recepcionistas'', False), (''ver_reportes'', False), (''gestionar_catalogos'', False), (''realizar_triaje'', False), (''realizar_consultas'', False), (''gestionar_citas'', True), (''ver_historial'', False), (''configurar_sistema'', False)]"
  by (simp add: get_user_permissions_def permissions_def)

lemma verify_permission_administrador:
  "verify_permission ''Administrador'' permission \<longleftrightarrow> permission \<in> {''ver_dashboard'', ''gestionar_usuarios'', ''gestionar_clientes'', ''gestionar_mascotas'', ''gestionar_veterinarios'', ''gestionar_recepcionistas'', ''ver_reportes'', ''gestionar_catalogos'', ''realizar_triaje'', ''realizar_consultas'', ''gestionar_citas'', ''ver_historial'', ''configurar_sistema''}"
  by (simp add: verify_permission_def get_user_permissions_administrador)

lemma verify_permission_veterinario:
  "verify_permission ''Veterinario'' permission \<longleftrightarrow> permission \<in> {''ver_dashboard'', ''gestionar_clientes'', ''gestionar_mascotas'', ''ver_reportes'', ''realizar_triaje'', ''realizar_consultas'', ''gestionar_citas'', ''ver_historial''}"
  by (simp add: verify_permission_def get_user_permissions_veterinario)

lemma verify_permission_recepcionista:
  "verify_permission ''Recepcionista'' permission \<longleftrightarrow> permission \<in> {''gestionar_clientes'', ''gestionar_mascotas'', ''gestionar_citas''}"
  by (simp add: verify_permission_def get_user_permissions_recepcionista)


lemma get_user_permissions_unknown:
  "user_type \<notin> {''Administrador'', ''Veterinario'', ''Recepcionista''} \<Longrightarrow>
   get_user_permissions user_type = []"
  by (simp add: get_user_permissions_def permissions_def)

lemma verify_permission_absent:
  "permission \<notin> fst ` set (get_user_permissions user_type) \<Longrightarrow>
   \<not> verify_permission user_type permission"
  by (simp add: verify_permission_def map_of_eq_None_iff [THEN iffD2])

lemma verify_permission_granted:
  "verify_permission user_type permission
     \<longleftrightarrow> user_type = ''Administrador'' \<and> verify_permission ''Administrador'' permission
       \<or> user_type = ''Veterinario'' \<and> verify_permission ''Veterinario'' permission
       \<or> user_type = ''Recepcionista'' \<and> verify_permission ''Recepcionista'' permission"
proof (cases "user_type \<in> {''Administrador'', ''Veterinario'', ''Recepcionista''}")
  case True
  then show ?thesis by auto
next
  case False
  then have "\<not> verify_permission user_type permission"
    by (simp add: verify_permission_def get_user_permissions_unknown)
  with False show ?thesis by auto
qed

lemma permissions_rows:
  "permissions
       = [(''Administrador'', get_user_permissions ''Administrador''),
          (''Veterinario'', get_user_permissions ''Veterinario''),
          (''Recepcionista'', get_user_permissions ''Recepcionista'')]"
  unfolding get_user_permissions_administrador get_user_permissions_veterinario
    get_user_permissions_recepcionista
  by (simp add: permissions_def)

lemma verify_permission_lookup:
  "verify_permission user_type permission
     \<longleftrightarrow> (\<exists>permisos. (user_type, permisos) \<in> set permissions
                     \<and> (permission, True) \<in> set permisos)"
proof -
  have rows: "(user_type, permisos) \<in> set permissions
      \<longleftrightarrow> user_type = ''Administrador'' \<and> permisos = get_user_permissions ''Administrador''
        \<or> user_type = ''Veterinario'' \<and> permisos = get_user_permissions ''Veterinario''
        \<or> user_type = ''Recepcionista'' \<and> permisos = get_user_permissions ''Recepcionista''"
    for permisos
    by (subst permissions_rows) auto
  have adm: "verify_permission ''Administrador'' permission
      \<longleftrightarrow> (permission, True) \<in> set (get_user_permissions ''Administrador'')"
    unfolding verify_permission_administrador get_user_permissions_administrador by auto
  have vet: "verify_permission ''Veterinario'' permission
      \<longleftrightarrow> (permission, True) \<in> set (get_user_permissions ''Veterinario'')"
    unfolding verify_permission_veterinario get_user_permissions_veterinario by auto
  have rec: "verify_permission ''Recepcionista'' permission
      \<longleftrightarrow> (permission, True) \<in> set (get_user_permissions ''Recepcionista'')"
    unfolding verify_permission_recepcionista get_user_permissions_recepcionista by auto
  show ?thesis
    unfolding rows
    by (subst verify_permission_granted) (use adm vet rec in blast)
qed

text \<open>
  Claim C6. Authorization is a static per-role table. The table has exactly the three
  roles Administrador, Veterinario and Recepcionista, and each role's map is the one
  written out below. \<open>verify_permission\<close> is a function of its two arguments only and
  is given by the table: it is True exactly when the table has a row for the user type
  whose map holds the permission with the value True. So it is False for a user type
  outside the three roles and for a permission name that the role's map does not
  contain, and every permission of the Administrador map is True.
\<close>

theorem verify_permission_static_table:
  "map fst permissions = [''Administrador'', ''Veterinario'', ''Recepcionista'']
   \<and> (user_type \<notin> {''Administrador'', ''Veterinario'', ''Recepcionista''}
        \<longrightarrow> verify_permission user_type permission = False)
   \<and> (permission \<notin> fst ` set (get_user_permissions user_type)
        \<longrightarrow> verify_permission user_type permission = False)
   \<and> (\<forall>(p, allowed) \<in> set (get_user_permissions ''Administrador'').
         allowed \<and> verify_permission ''Administrador'' p = True)
   \<and> permissions
       = [(''Administrador'', get_user_permissions ''Administrador''),
          (''Veterinario'', get_user_permissions ''Veterinario''),
          (''Recepcionista'', get_user_permissions ''Recepcionista'')]
   \<and> (user_type \<notin> {''Administrador'', ''Veterinario'', ''Recepcionista''}
        \<longrightarrow> get_user_permissions user_type = [])
   \<and> get_user_permissions ''Administrador''
       = [(''ver_dashboard'', True), (''gestionar_usuarios'', True),
         (''gestionar_clientes'', True), (''gestionar_mascotas'', True),
         (''gestionar_veterinarios'', True), (''gestionar_recepcionistas'', True),
         (''ver_reportes'', True), (''gestionar_catalogos'', True),
         (''realizar_triaje'', True), (''realizar_consultas'', True),
         (''gestionar_citas'', True), (''ver_historial'', True),
         (''configurar_sistema'', True)]
   \<and> get_user_permissions ''Veterinario''
       = [(''ver_dashboard'', True), (''gestionar_usuarios'', False),
         (''gestionar_clientes'', True), (''gestionar_mascotas'', True),
         (''gestionar_veterinarios'', False), (''gestionar_recepcionistas'', False),
         (''ver_reportes'', True), (''gestionar_catalogos'', False),
         (''realizar_triaje'', True), (''realizar_consultas'', True),
         (''gestionar_citas'', True), (''ver_historial'', True),
         (''configurar_sistema'', False)]
   \<and> get_user_permissions ''Recepcionista''
       = [(''ver_dashboard'', False), (''gestionar_usuarios'', False),
         (''gestionar_clientes'', True), (''gestionar_mascotas'', True),
         (''gestionar_veterinarios'', False), (''gestionar_recepcionistas'', False),
         (''ver_reportes'', False), (''gestionar_catalogos'', False),
         (''realizar_triaje'', False), (''realizar_consultas'', False),
         (''gestionar_citas'', True), (''ver_historial'', False),
         (''configurar_sistema'', False)]
   \<and> (verify_permission user_type permission
        \<longleftrightarrow> (\<exists>permisos. (user_type, permisos) \<in> set permissions
                        \<and> (permission, True) \<in> set permisos))
   \<and> (verify_permission user_type permission
        \<longleftrightarrow> user_type = ''Administrador''
            \<and> permission \<in> {''ver_dashboard'', ''gestionar_usuarios'', ''gestionar_clientes'',
               ''gestionar_mascotas'', ''gestionar_veterinarios'',
               ''gestionar_recepcionistas'', ''ver_reportes'', ''gestionar_catalogos'',
               ''realizar_triaje'', ''realizar_consultas'', ''gestionar_citas'',
               ''ver_historial'', ''configurar_sistema''}
          \<or> user_type = ''Veterinario''
            \<and> permission \<in> {''ver_dashboard'', ''gestionar_clientes'', ''gestionar_mascotas'',
               ''ver_reportes'', ''realizar_triaje'', ''realizar_consultas'',
               ''gestionar_citas'', ''ver_historial''}
          \<or> user_type = ''Recepcionista''
            \<and> permission \<in> {''gestionar_clientes'', ''gestionar_mascotas'', ''gestionar_citas''})"
proof -
  have roles: "map fst permissions = [''Administrador'', ''Veterinario'', ''Recepcionista'']"
    by (simp add: permissions_def)
  have unknown: "user_type \<notin> {''Administrador'', ''Veterinario'', ''Recepcionista''}
        \<longrightarrow> verify_permission user_type permission = False"
    by (simp add: verify_permission_def get_user_permissions_unknown)
  have absent: "permission \<notin> fst ` set (get_user_permissions user_type)
        \<longrightarrow> verify_permission user_type permission = False"
    using verify_permission_absent by simp
  have admin: "\<forall>(p, allowed) \<in> set (get_user_permissions ''Administrador'').
         allowed \<and> verify_permission ''Administrador'' p = True"
    by (simp add: verify_permission_def get_user_permissions_def permissions_def)
  have empty: "user_type \<notin> {''Administrador'', ''Veterinario'', ''Recepcionista''}
        \<longrightarrow> get_user_permissions user_type = []"
    using get_user_permissions_unknown by simp
  note granted = verify_permission_granted [of user_type permission,
      unfolded verify_permission_administrador verify_permission_veterinario
        verify_permission_recepcionista]
  show ?thesis
    by (intro conjI roles unknown absent admin permissions_rows empty
          get_user_permissions_administrador get_user_permissions_veterinario
          get_user_permissions_recepcionista verify_permission_lookup granted)
qed

theorem verify_permission_static_table_witness:
  "''Gerente'' \<notin> {''Administrador'', ''Veterinario'', ''Recepcionista''}
   \<and> verify_permission ''Gerente'' ''ver_dashboard'' = False
   \<and> ''volar'' \<notin> fst ` set (get_user_permissions ''Veterinario'')
   \<and> verify_permission ''Veterinario'' ''volar'' = False
   \<and> (''configurar_sistema'', True) \<in> set (get_user_permissions ''Administrador'')
   \<and> verify_permission ''Administrador'' ''configurar_sistema'' = True
   \<and> verify_permission ''Veterinario'' ''realizar_consultas''
   \<and> \<not> verify_permission ''Recepcionista'' ''ver_reportes''"
proof -
  note table = verify_permission_static_table [of "''Gerente''" "''ver_dashboard''"]
  have outside: "''Gerente'' \<notin> {''Administrador'', ''Veterinario'', ''Recepcionista''}"
    by simp
  have member: "(''configurar_sistema'', True) \<in> set (get_user_permissions ''Administrador'')"
    by (simp add: get_user_permissions_administrador)
  have unlisted: "''volar'' \<notin> fst ` set (get_user_permissions ''Veterinario'')"
    by (simp add: get_user_permissions_veterinario)
  have denied: "verify_permission ''Gerente'' ''ver_dashboard'' = False"
    by (rule table [THEN conjunct2, THEN conjunct1, rule_format, OF outside])
  have absent: "verify_permission ''Veterinario'' ''volar'' = False"
    by (rule verify_permission_static_table [of "''Veterinario''" "''volar''",
          THEN conjunct2, THEN conjunct2, THEN conjunct1, rule_format, OF unlisted])
  have "case (''configurar_sistema'', True) of
          (p, allowed) \<Rightarrow> allowed \<and> verify_permission ''Administrador'' p = True"
    by (rule bspec [OF table [THEN conjunct2, THEN conjunct2, THEN conjunct2, THEN conjunct1] member])
  then have granted: "verify_permission ''Administrador'' ''configurar_sistema'' = True"
    by (simp only: prod.case)
  have vet: "verify_permission ''Veterinario'' ''realizar_consultas''"
    by (subst verify_permission_static_table [of "''Veterinario''" "''realizar_consultas''",
          THEN conjunct2, THEN conjunct2, THEN conjunct2, THEN conjunct2, THEN conjunct2, THEN conjunct2, THEN conjunct2, THEN conjunct2, THEN conjunct2, THEN conjunct2]) simp
  have rec: "\<not> verify_permission ''Recepcionista'' ''ver_reportes''"
    by (subst verify_permission_static_table [of "''Recepcionista''" "''ver_reportes''",
          THEN conjunct2, THEN conjunct2, THEN conjunct2, THEN conjunct2, THEN conjunct2, THEN conjunct2, THEN conjunct2, THEN conjunct2, THEN conjunct2, THEN conjunct2]) simp
  show ?thesis
    by (intro conjI outside denied unlisted absent member granted vet rec)
qed

section \<open>Lists of rows\<close>

lemma find_update_first:
  "(\<And>x. P x \<Longrightarrow> P (f x)) \<Longrightarrow> find P (update_first P f xs) = map_option f (find P xs)"
  by (induction xs) auto

lemma length_update_first: "length (update_first P f xs) = length xs"
  by (induction xs) auto

lemma find_by_key_distinct:
  "distinct (map k xs) \<Longrightarrow> x \<in> set xs \<Longrightarrow> find (\<lambda>y. k y = k x) xs = Some x"
  by (induction xs) (auto simp: image_iff)

lemma find_in_set: "find P xs = Some x \<Longrightarrow> x \<in> set xs \<and> P x"
  by (induction xs) (auto split: if_splits)

lemma find_exists: "x \<in> set xs \<Longrightarrow> P x \<Longrightarrow> \<exists>y. find P xs = Some y"
  by (induction xs) auto

lemma distinct_key_eq:
  "distinct (map k xs) \<Longrightarrow> x \<in> set xs \<Longrightarrow> y \<in> set xs \<Longrightarrow> k x = k y \<Longrightarrow> x = y"
  by (meson distinct_map inj_onD)


lemma update_first_nth_hit:
  "find P xs = Some x \<Longrightarrow> i < length xs \<Longrightarrow> update_first P f xs ! i \<noteq> xs ! i
   \<Longrightarrow> xs ! i = x"
proof (induction xs arbitrary: i)
  case Nil
  then show ?case by simp
next
  case (Cons a xs)
  then show ?case
    by (cases i) (auto split: if_splits)
qed

section \<open>Stripping and the validators of the historial schema\<close>

lemma dropWhile_keeps_nonspace:
  "p \<noteq> [] \<Longrightarrow> \<not> P (hd p) \<Longrightarrow> dropWhile P (p @ r) = p @ r"
  by (cases p) simp_all

lemma strip_keeps_prefix:
  assumes "p \<noteq> []" and "\<not> isspace (hd p)" and "\<not> isspace (last p)"
  shows "\<exists>q. strip (p @ r) = p @ q"
proof -
  have front: "dropWhile isspace (p @ r) = p @ r"
    using assms by (simp add: dropWhile_keeps_nonspace)
  have rear: "dropWhile isspace (rev p) = rev p"
    using assms by (cases "rev p") (simp_all add: last_rev [symmetric] hd_rev)
  have "dropWhile isspace (rev r @ rev p)
          = (if \<forall>x \<in> set (rev r). isspace x then rev p else dropWhile isspace (rev r) @ rev p)"
    by (simp add: dropWhile_append rear)
  then have "strip (p @ r) = p \<or> strip (p @ r) = p @ rev (dropWhile isspace (rev r))"
    by (simp add: strip_def front split: if_splits)
  then show ?thesis by auto
qed

lemma validate_descripcion_consulta:
  "validate_descripcion_evento (''Consulta: '' @ x) = Inr (strip (''Consulta: '' @ x))"
proof -
  have "\<exists>q. strip (''Consulta:'' @ ('' '' @ x)) = ''Consulta:'' @ q"
    by (rule strip_keeps_prefix) (simp_all add: isspace_def)
  then obtain q where "strip (''Consulta: '' @ x) = ''Consulta:'' @ q"
    by auto
  then have "5 \<le> length (strip (''Consulta: '' @ x))"
    by simp
  then show ?thesis
    by (simp add: validate_descripcion_evento_def)
qed

lemma validate_tipo_consulta_medica:
  "validate_tipo_evento ''Consulta medica'' = Inr ''Consulta medica''"
  by (simp add: validate_tipo_evento_def strip_def isspace_def)

section \<open>Properties of authentication\<close>

text \<open>
  Claim C5. Authentication compares the stored password as plain text. The column
  \<open>username\<close> is declared \<open>unique=True\<close>; on such a table \<open>authenticate_user\<close>
  returns a result other than \<open>None\<close> exactly when some user with the given username
  has estado \<open>Activo\<close> and a stored password equal, character for character, to the
  supplied one.
\<close>

theorem authenticate_user_plaintext:
  assumes uniq: "distinct (map username (usuarios d))"
  shows "authenticate_user d uname password \<noteq> None \<longleftrightarrow>
         (\<exists>u \<in> set (usuarios d).
            username u = uname \<and> usuario_estado u = ''Activo'' \<and> contrasena u = password)"
proof
  assume ok: "authenticate_user d uname password \<noteq> None"
  then obtain u where f: "find (\<lambda>u. username u = uname \<and> usuario_estado u = ''Activo'') (usuarios d) = Some u"
    by (cases "find (\<lambda>u. username u = uname \<and> usuario_estado u = ''Activo'') (usuarios d)")
       (simp_all add: authenticate_user_def)
  with ok have pw: "contrasena u = password"
    by (simp add: authenticate_user_def split: if_splits)
  from find_in_set [OF f] pw show "\<exists>u \<in> set (usuarios d).
            username u = uname \<and> usuario_estado u = ''Activo'' \<and> contrasena u = password"
    by (intro bexI [of _ u]) simp_all
next
  assume "\<exists>u \<in> set (usuarios d).
            username u = uname \<and> usuario_estado u = ''Activo'' \<and> contrasena u = password"
  then obtain u where u: "u \<in> set (usuarios d)" "username u = uname"
      "usuario_estado u = ''Activo''" "contrasena u = password"
    by (elim bexE conjE)
  from find_exists [of u "usuarios d" "\<lambda>u. username u = uname \<and> usuario_estado u = ''Activo''"] u
  obtain y where f: "find (\<lambda>u. username u = uname \<and> usuario_estado u = ''Activo'') (usuarios d) = Some y"
    by (elim exE | simp)+
  from find_in_set [OF f] have "y \<in> set (usuarios d)" "username y = uname" by simp_all
  with uniq u have "y = u" by (intro distinct_key_eq [of username "usuarios d"]) simp_all
  with f u show "authenticate_user d uname password \<noteq> None"
    by (simp add: authenticate_user_def)
qed


theorem authenticate_user_plaintext_witness:
  "distinct (map username (usuarios db0))
   \<and> authenticate_user db0 ''ana'' ''secreta'' \<noteq> None
   \<and> authenticate_user db0 ''ana'' ''Secreta'' = None
   \<and> authenticate_user db0 ''luis'' ''clave'' = None"
proof -
  have uniq: "distinct (map username (usuarios db0))"
    by (simp add: db0_def)
  have yes: "authenticate_user db0 ''ana'' ''secreta'' \<noteq> None"
    unfolding authenticate_user_plaintext [OF uniq] by (simp add: db0_def)
  have no1: "authenticate_user db0 ''ana'' ''Secreta'' = None"
    using authenticate_user_plaintext [OF uniq, of "''ana''" "''Secreta''"]
    by (simp add: db0_def)
  have no2: "authenticate_user db0 ''luis'' ''clave'' = None"
    using authenticate_user_plaintext [OF uniq, of "''luis''" "''clave''"]
    by (simp add: db0_def)
  show ?thesis by (intro conjI uniq yes no1 no2)
qed

text \<open>
  Claim C8. \<open>change_password\<close> is atomic on error: for an unknown user id, for a
  current password that differs from the stored one (whatever the new password is, so
  this check comes before the length check), and for a new password shorter than 3
  characters it returns \<open>(False, message)\<close> and the database is the one it was given.
  It returns \<open>(True, message)\<close> only when all three checks pass, and then the stored
  password of the user is the new password; when the three checks pass and the commit is
  accepted, it does return \<open>(True, message)\<close>.
\<close>

theorem change_password_atomic:
  fixes commit_ok d user_id current_password new_password
  defines "stored \<equiv> find (\<lambda>u. id_usuario u = user_id) (usuarios d)"
  defines "res \<equiv> change_password commit_ok d user_id current_password new_password"
  defines "d_new \<equiv> d\<lparr>usuarios := update_first (\<lambda>u. id_usuario u = user_id)
                         (\<lambda>u. u\<lparr>contrasena := new_password\<rparr>) (usuarios d)\<rparr>"
  shows "(stored = None \<longrightarrow> res = Inr (d, False, ''Usuario no encontrado''))
    \<and> (\<forall>u. stored = Some u \<and> contrasena u \<noteq> current_password
          \<longrightarrow> res = Inr (d, False, ''Contrasena actual incorrecta''))
    \<and> (\<forall>u. stored = Some u \<and> contrasena u = current_password \<and> length new_password < 3
          \<longrightarrow> res = Inr (d, False, ''La nueva contrasena debe tener al menos 3 caracteres''))
    \<and> (\<forall>d' msg. res = Inr (d', True, msg)
          \<longrightarrow> (\<exists>u. stored = Some u \<and> contrasena u = current_password
                   \<and> 3 \<le> length new_password \<and> d' = d_new
                   \<and> find (\<lambda>u. id_usuario u = user_id) (usuarios d')
                       = Some (u\<lparr>contrasena := new_password\<rparr>)))
    \<and> (\<forall>u. stored = Some u \<and> contrasena u = current_password \<and> 3 \<le> length new_password
              \<and> commit_ok d_new
          \<longrightarrow> res = Inr (d_new, True, ''Contrasena cambiada exitosamente''))
    \<and> (\<forall>d' ok msg. res = Inr (d', ok, msg) \<and> \<not> ok \<longrightarrow> d' = d)"
proof (cases stored)
  case None
  then have "res = Inr (d, False, ''Usuario no encontrado'')"
    by (simp add: res_def stored_def change_password_def)
  with None show ?thesis by simp
next
  case (Some u)
  have upd: "find (\<lambda>u. id_usuario u = user_id) (usuarios d_new) = Some (u\<lparr>contrasena := new_password\<rparr>)"
    using Some by (simp add: d_new_def stored_def find_update_first)
  consider (wrong) "contrasena u \<noteq> current_password"
    | (short) "contrasena u = current_password" "length new_password < 3"
    | (fail) "contrasena u = current_password" "3 \<le> length new_password" "\<not> commit_ok d_new"
    | (pass) "contrasena u = current_password" "3 \<le> length new_password" "commit_ok d_new"
    by linarith
  then show ?thesis
  proof cases
    case wrong
    then have "res = Inr (d, False, ''Contrasena actual incorrecta'')"
      using Some by (simp add: res_def stored_def change_password_def)
    with Some wrong show ?thesis by simp
  next
    case short
    then have "res = Inr (d, False, ''La nueva contrasena debe tener al menos 3 caracteres'')"
      using Some by (simp add: res_def stored_def change_password_def)
    with Some short show ?thesis by simp
  next
    case fail
    then have "res = Inl DBError"
      using Some by (simp add: res_def stored_def change_password_def commit_def d_new_def)
    with Some fail show ?thesis by simp
  next
    case pass
    then have "res = Inr (d_new, True, ''Contrasena cambiada exitosamente'')"
      using Some by (simp add: res_def stored_def change_password_def commit_def d_new_def)
    with Some pass upd show ?thesis by simp
  qed
qed


theorem change_password_atomic_witness:
  "change_password (\<lambda>_. True) db0 1 ''secreta'' ''nueva''
     = Inr (db0\<lparr>usuarios := update_first (\<lambda>u. id_usuario u = 1)
                   (\<lambda>u. u\<lparr>contrasena := ''nueva''\<rparr>) (usuarios db0)\<rparr>,
            True, ''Contrasena cambiada exitosamente'')
   \<and> change_password (\<lambda>_. True) db0 1 ''otra'' ''xy''
     = Inr (db0, False, ''Contrasena actual incorrecta'')
   \<and> change_password (\<lambda>_. True) db0 1 ''secreta'' ''xy''
     = Inr (db0, False, ''La nueva contrasena debe tener al menos 3 caracteres'')
   \<and> change_password (\<lambda>_. True) db0 7 ''secreta'' ''nueva''
     = Inr (db0, False, ''Usuario no encontrado'')"
proof -
  let ?ana = "\<lparr>id_usuario = 1, username = ''ana'', contrasena = ''secreta'',
              tipo_usuario = ''Veterinario'', usuario_estado = ''Activo''\<rparr>"
  have stored: "find (\<lambda>u. id_usuario u = 1) (usuarios db0) = Some ?ana"
    by (simp add: db0_def)
  have missing: "find (\<lambda>u. id_usuario u = 7) (usuarios db0) = None"
    by (simp add: db0_def)
  have pw: "contrasena ?ana = ''secreta''" and pw': "contrasena ?ana \<noteq> ''otra''"
    by simp_all
  have pass: "change_password (\<lambda>_. True) db0 1 ''secreta'' ''nueva''
     = Inr (db0\<lparr>usuarios := update_first (\<lambda>u. id_usuario u = 1)
                   (\<lambda>u. u\<lparr>contrasena := ''nueva''\<rparr>) (usuarios db0)\<rparr>,
            True, ''Contrasena cambiada exitosamente'')"
    by (rule change_password_atomic [where commit_ok = "\<lambda>_. True",
          THEN conjunct2, THEN conjunct2, THEN conjunct2, THEN conjunct2, THEN conjunct1,
          rule_format, of _ _ ?ana])
       (simp add: stored)
  have wrong: "change_password (\<lambda>_. True) db0 1 ''otra'' ''xy''
     = Inr (db0, False, ''Contrasena actual incorrecta'')"
    by (rule change_password_atomic [THEN conjunct2, THEN conjunct1, rule_format, of _ _ ?ana])
       (simp add: stored)
  have short: "change_password (\<lambda>_. True) db0 1 ''secreta'' ''xy''
     = Inr (db0, False, ''La nueva contrasena debe tener al menos 3 caracteres'')"
    by (rule change_password_atomic [THEN conjunct2, THEN conjunct2, THEN conjunct1,
          rule_format, of _ _ ?ana])
       (simp add: stored)
  have absent: "change_password (\<lambda>_. True) db0 7 ''secreta'' ''nueva''
     = Inr (db0, False, ''Usuario no encontrado'')"
    by (rule change_password_atomic [THEN conjunct1, rule_format]) (rule missing)
  show ?thesis by (intro conjI pass wrong short absent)
qed

text \<open>
  Claim C9. \<open>reset_password\<close> asks neither for the old password nor for an active
  account: for every stored user, whatever its estado and stored password, and every new
  password of at least 3 characters, it overwrites the stored password and returns
  \<open>(True, message)\<close> once the commit is accepted. Its only checks are that the
  username exists and that the new password has length at least 3.
\<close>

theorem reset_password_unconditional:
  fixes commit_ok d uname new_password
  defines "res \<equiv> reset_password commit_ok d uname new_password"
  defines "d_new \<equiv> d\<lparr>usuarios := update_first (\<lambda>u. username u = uname)
                         (\<lambda>u. u\<lparr>contrasena := new_password\<rparr>) (usuarios d)\<rparr>"
  shows "(\<forall>u \<in> set (usuarios d).
            distinct (map username (usuarios d)) \<and> username u = uname
            \<and> 3 \<le> length new_password \<and> commit_ok d_new
          \<longrightarrow> res = Inr (d_new, True, ''Contrasena reseteada exitosamente'')
              \<and> find (\<lambda>x. username x = uname) (usuarios d_new)
                  = Some (u\<lparr>contrasena := new_password\<rparr>))
    \<and> (uname \<notin> username ` set (usuarios d)
          \<longrightarrow> res = Inr (d, False, ''Usuario no encontrado''))
    \<and> (uname \<in> username ` set (usuarios d) \<and> length new_password < 3
          \<longrightarrow> res = Inr (d, False, ''La contrasena debe tener al menos 3 caracteres''))"
proof (intro conjI ballI impI)
  fix u
  assume u: "u \<in> set (usuarios d)"
    and h: "distinct (map username (usuarios d)) \<and> username u = uname
            \<and> 3 \<le> length new_password \<and> commit_ok d_new"
  from h u have f: "find (\<lambda>x. username x = uname) (usuarios d) = Some u"
    using find_by_key_distinct [of username "usuarios d" u] by auto
  from f h show "res = Inr (d_new, True, ''Contrasena reseteada exitosamente'')"
    by (simp add: res_def reset_password_def commit_def d_new_def)
  from f show "find (\<lambda>x. username x = uname) (usuarios d_new)
                  = Some (u\<lparr>contrasena := new_password\<rparr>)"
    by (simp add: d_new_def find_update_first)
next
  assume "uname \<notin> username ` set (usuarios d)"
  then have "find (\<lambda>x. username x = uname) (usuarios d) = None"
    by (auto simp: find_None_iff)
  then show "res = Inr (d, False, ''Usuario no encontrado'')"
    by (simp add: res_def reset_password_def)
next
  assume h: "uname \<in> username ` set (usuarios d) \<and> length new_password < 3"
  then obtain y where "find (\<lambda>x. username x = uname) (usuarios d) = Some y"
    using find_exists [of _ "usuarios d" "\<lambda>x. username x = uname"] by auto
  with h show "res = Inr (d, False, ''La contrasena debe tener al menos 3 caracteres'')"
    by (simp add: res_def reset_password_def)
qed

theorem reset_password_unconditional_witness:
  "\<lparr>id_usuario = 2, username = ''luis'', contrasena = ''clave'',
     tipo_usuario = ''Recepcionista'', usuario_estado = ''Inactivo''\<rparr> \<in> set (usuarios db0)
   \<and> reset_password (\<lambda>_. True) db0 ''luis'' ''abc''
     = Inr (db0\<lparr>usuarios := update_first (\<lambda>u. username u = ''luis'')
                   (\<lambda>u. u\<lparr>contrasena := ''abc''\<rparr>) (usuarios db0)\<rparr>,
            True, ''Contrasena reseteada exitosamente'')
   \<and> find (\<lambda>x. username x = ''luis'')
        (usuarios (db0\<lparr>usuarios := update_first (\<lambda>u. username u = ''luis'')
                   (\<lambda>u. u\<lparr>contrasena := ''abc''\<rparr>) (usuarios db0)\<rparr>))
     = Some \<lparr>id_usuario = 2, username = ''luis'', contrasena = ''abc'',
             tipo_usuario = ''Recepcionista'', usuario_estado = ''Inactivo''\<rparr>
   \<and> reset_password (\<lambda>_. True) db0 ''eva'' ''abc'' = Inr (db0, False, ''Usuario no encontrado'')"
proof -
  let ?luis = "\<lparr>id_usuario = 2, username = ''luis'', contrasena = ''clave'',
     tipo_usuario = ''Recepcionista'', usuario_estado = ''Inactivo''\<rparr>"
  have mem: "?luis \<in> set (usuarios db0)"
    by (simp add: db0_def)
  have pre: "distinct (map username (usuarios db0)) \<and> username ?luis = ''luis''
            \<and> 3 \<le> length ''abc'' \<and> (\<lambda>_. True)
                 (db0\<lparr>usuarios := update_first (\<lambda>u. username u = ''luis'')
                   (\<lambda>u. u\<lparr>contrasena := ''abc''\<rparr>) (usuarios db0)\<rparr>)"
    by (simp add: db0_def)
  note hit = reset_password_unconditional [where commit_ok = "\<lambda>_. True" and d = db0
      and uname = "''luis''" and new_password = "''abc''",
      THEN conjunct1, THEN bspec, OF mem, THEN mp, OF pre]
  have upd: "?luis\<lparr>contrasena := ''abc''\<rparr>
     = \<lparr>id_usuario = 2, username = ''luis'', contrasena = ''abc'',
             tipo_usuario = ''Recepcionista'', usuario_estado = ''Inactivo''\<rparr>"
    by simp
  have unknown: "''eva'' \<notin> username ` set (usuarios db0)"
    by (simp add: db0_def)
  note miss = reset_password_unconditional [where commit_ok = "\<lambda>_. True" and d = db0
      and uname = "''eva''" and new_password = "''abc''",
      THEN conjunct2, THEN conjunct1, THEN mp, OF unknown]
  show ?thesis
    by (intro conjI mem hit [THEN conjunct1] hit [THEN conjunct2, unfolded upd] miss)
qed

section \<open>Properties of attention requests\<close>





section \<open>Properties of appointments\<close>

text \<open>
  Claim C4. \<open>cancelar_cita\<close> moves a cita from \<open>Programada\<close> to \<open>Cancelada\<close> and
  \<open>marcar_atendida\<close> from \<open>Programada\<close> to \<open>Atendida\<close>; for a cita in any other
  state both return the cita and leave the database as it was; and whatever either
  operation is called with, every stored cita whose state is \<open>Cancelada\<close> or
  \<open>Atendida\<close> is the same row afterwards.
\<close>

theorem cita_estado_transitions:
  fixes commit_ok d cita_id
  defines "cancel \<equiv> cancelar_cita commit_ok d cita_id"
  defines "attend \<equiv> marcar_atendida commit_ok d cita_id"
  defines "d_cancel \<equiv> d\<lparr>citas := update_first (\<lambda>c. id_cita c = cita_id)
                            (\<lambda>c. c\<lparr>estado_cita := ''Cancelada''\<rparr>) (citas d)\<rparr>"
  defines "d_attend \<equiv> d\<lparr>citas := update_first (\<lambda>c. id_cita c = cita_id)
                            (\<lambda>c. c\<lparr>estado_cita := ''Atendida''\<rparr>) (citas d)\<rparr>"
  shows "(\<forall>c. cita_get d cita_id = Some c \<and> estado_cita c = ''Programada''
          \<longrightarrow> (commit_ok d_cancel
                 \<longrightarrow> cancel = Inr (d_cancel, Some (c\<lparr>estado_cita := ''Cancelada''\<rparr>))
                   \<and> cita_get d_cancel cita_id = Some (c\<lparr>estado_cita := ''Cancelada''\<rparr>))
            \<and> (commit_ok d_attend
                 \<longrightarrow> attend = Inr (d_attend, Some (c\<lparr>estado_cita := ''Atendida''\<rparr>))
                   \<and> cita_get d_attend cita_id = Some (c\<lparr>estado_cita := ''Atendida''\<rparr>)))
    \<and> (\<forall>c. cita_get d cita_id = Some c \<and> estado_cita c \<noteq> ''Programada''
          \<longrightarrow> cancel = Inr (d, Some c) \<and> attend = Inr (d, Some c))
    \<and> (cita_get d cita_id = None \<longrightarrow> cancel = Inr (d, None) \<and> attend = Inr (d, None))
    \<and> (\<forall>d' r i. (cancel = Inr (d', r) \<or> attend = Inr (d', r))
              \<and> i < length (citas d)
              \<and> estado_cita (citas d ! i) \<in> {''Cancelada'', ''Atendida''}
          \<longrightarrow> length (citas d') = length (citas d) \<and> citas d' ! i = citas d ! i)"
proof (intro conjI allI impI)
  fix c
  assume h: "cita_get d cita_id = Some c \<and> estado_cita c = ''Programada''"
  {
    assume "commit_ok d_cancel"
    with h show "cancel = Inr (d_cancel, Some (c\<lparr>estado_cita := ''Cancelada''\<rparr>))"
      by (simp add: cancel_def cancelar_cita_def commit_def d_cancel_def)
    from h show "cita_get d_cancel cita_id = Some (c\<lparr>estado_cita := ''Cancelada''\<rparr>)"
      by (simp add: cita_get_def d_cancel_def find_update_first)
  }
  {
    assume "commit_ok d_attend"
    with h show "attend = Inr (d_attend, Some (c\<lparr>estado_cita := ''Atendida''\<rparr>))"
      by (simp add: attend_def marcar_atendida_def commit_def d_attend_def)
    from h show "cita_get d_attend cita_id = Some (c\<lparr>estado_cita := ''Atendida''\<rparr>)"
      by (simp add: cita_get_def d_attend_def find_update_first)
  }
next
  fix c
  assume h: "cita_get d cita_id = Some c \<and> estado_cita c \<noteq> ''Programada''"
  then show "cancel = Inr (d, Some c)"
    by (simp add: cancel_def cancelar_cita_def)
  from h show "attend = Inr (d, Some c)"
    by (simp add: attend_def marcar_atendida_def)
next
  assume h: "cita_get d cita_id = None"
  then show "cancel = Inr (d, None)"
    by (simp add: cancel_def cancelar_cita_def)
  from h show "attend = Inr (d, None)"
    by (simp add: attend_def marcar_atendida_def)
next
  fix d' r i
  assume h: "(cancel = Inr (d', r) \<or> attend = Inr (d', r))
              \<and> i < length (citas d)
              \<and> estado_cita (citas d ! i) \<in> {''Cancelada'', ''Atendida''}"
  then have i: "i < length (citas d)"
    and fin: "estado_cita (citas d ! i) \<noteq> ''Programada''"
    by auto
  have same: "d' = d \<or> (\<exists>c g. cita_get d cita_id = Some c \<and> estado_cita c = ''Programada''
      \<and> d' = d\<lparr>citas := update_first (\<lambda>c. id_cita c = cita_id) g (citas d)\<rparr>)"
    using h
    by (auto simp: cancel_def attend_def cancelar_cita_def marcar_atendida_def commit_def
          split: option.splits if_splits)
  then show "length (citas d') = length (citas d)"
    by (auto simp: length_update_first)
  from same show "citas d' ! i = citas d ! i"
  proof
    assume "d' = d"
    then show ?thesis by simp
  next
    assume "\<exists>c g. cita_get d cita_id = Some c \<and> estado_cita c = ''Programada''
      \<and> d' = d\<lparr>citas := update_first (\<lambda>c. id_cita c = cita_id) g (citas d)\<rparr>"
    then obtain c g where c: "find (\<lambda>c. id_cita c = cita_id) (citas d) = Some c"
      and prog: "estado_cita c = ''Programada''"
      and d': "d' = d\<lparr>citas := update_first (\<lambda>c. id_cita c = cita_id) g (citas d)\<rparr>"
      by (auto simp: cita_get_def)
    show ?thesis
    proof (rule ccontr)
      assume "citas d' ! i \<noteq> citas d ! i"
      with d' have "update_first (\<lambda>c. id_cita c = cita_id) g (citas d) ! i \<noteq> citas d ! i"
        by simp
      from update_first_nth_hit [OF c i this] prog fin show False by simp
    qed
  qed
qed

theorem cita_estado_transitions_witness:
  "cancelar_cita (\<lambda>_. True) db1 1
     = Inr (db1\<lparr>citas := update_first (\<lambda>c. id_cita c = 1)
                            (\<lambda>c. c\<lparr>estado_cita := ''Cancelada''\<rparr>) (citas db1)\<rparr>,
            Some \<lparr>id_cita = 1, fecha_hora_programada = 500, estado_cita = ''Cancelada''\<rparr>)
   \<and> marcar_atendida (\<lambda>_. True) db1 2
     = Inr (db1, Some \<lparr>id_cita = 2, fecha_hora_programada = 600, estado_cita = ''Cancelada''\<rparr>)
   \<and> cancelar_cita (\<lambda>_. True) db1 8 = Inr (db1, None)
   \<and> citas (db1\<lparr>citas := update_first (\<lambda>c. id_cita c = 1)
                            (\<lambda>c. c\<lparr>estado_cita := ''Cancelada''\<rparr>) (citas db1)\<rparr>) ! 1
       = citas db1 ! 1"
proof -
  let ?c1 = "\<lparr>id_cita = 1, fecha_hora_programada = 500, estado_cita = ''Programada''\<rparr>"
  let ?c2 = "\<lparr>id_cita = 2, fecha_hora_programada = 600, estado_cita = ''Cancelada''\<rparr>"
  let ?d1 = "db1\<lparr>citas := update_first (\<lambda>c. id_cita c = 1)
                            (\<lambda>c. c\<lparr>estado_cita := ''Cancelada''\<rparr>) (citas db1)\<rparr>"
  have g1: "cita_get db1 1 = Some ?c1 \<and> estado_cita ?c1 = ''Programada''"
    by (simp add: cita_get_def db1_def)
  have g2: "cita_get db1 2 = Some ?c2 \<and> estado_cita ?c2 \<noteq> ''Programada''"
    by (simp add: cita_get_def db1_def)
  have g8: "cita_get db1 8 = None"
    by (simp add: cita_get_def db1_def)
  have a: "cancelar_cita (\<lambda>_. True) db1 1 = Inr (?d1, Some (?c1\<lparr>estado_cita := ''Cancelada''\<rparr>))"
    by (rule cita_estado_transitions [where commit_ok = "\<lambda>_. True" and d = db1 and cita_id = 1,
          THEN conjunct1, rule_format, OF g1, THEN conjunct1, THEN mp, THEN conjunct1])
       simp
  have b: "marcar_atendida (\<lambda>_. True) db1 2 = Inr (db1, Some ?c2)"
    by (rule cita_estado_transitions [where commit_ok = "\<lambda>_. True" and d = db1 and cita_id = 2,
          THEN conjunct2, THEN conjunct1, rule_format, OF g2, THEN conjunct2])
  have c: "cancelar_cita (\<lambda>_. True) db1 8 = Inr (db1, None)"
    by (rule cita_estado_transitions [where commit_ok = "\<lambda>_. True" and d = db1 and cita_id = 8,
          THEN conjunct2, THEN conjunct2, THEN conjunct1, THEN mp, OF g8, THEN conjunct1])
  have pre: "(cancelar_cita (\<lambda>_. True) db1 1
                 = Inr (?d1, Some (?c1\<lparr>estado_cita := ''Cancelada''\<rparr>))
              \<or> marcar_atendida (\<lambda>_. True) db1 1
                 = Inr (?d1, Some (?c1\<lparr>estado_cita := ''Cancelada''\<rparr>)))
             \<and> 1 < length (citas db1)
             \<and> estado_cita (citas db1 ! 1) \<in> {''Cancelada'', ''Atendida''}"
    using a by (simp add: db1_def)
  note keep = cita_estado_transitions [where commit_ok = "\<lambda>_. True" and d = db1 and cita_id = 1,
          THEN conjunct2, THEN conjunct2, THEN conjunct2, rule_format, OF pre, THEN conjunct2]
  have u: "?c1\<lparr>estado_cita := ''Cancelada''\<rparr>
     = \<lparr>id_cita = 1, fecha_hora_programada = 500, estado_cita = ''Cancelada''\<rparr>"
    by simp
  show ?thesis
    by (intro conjI a [unfolded u] b c keep)
qed

lemma verificar_disponibilidad_iff:
  "verificar_disponibilidad d fecha_hora (Some cita_id) \<longleftrightarrow>
   \<not> (\<exists>c \<in> set (citas d). (cita_id \<noteq> 0 \<longrightarrow> id_cita c \<noteq> cita_id)
         \<and> fecha_hora_programada c = fecha_hora \<and> estado_cita c = ''Programada'')"
  by (auto simp: verificar_disponibilidad_def Let_def find_None_iff filter_empty_conv)

text \<open>
  Claim C10. \<open>reprogramar_cita\<close> checks the slot before it fetches the cita. When
  another cita in state \<open>Programada\<close> has exactly the target datetime, the result is
  \<open>None\<close> and nothing changes, for a cita id that does not exist as well. When no other
  such cita exists, the datetime is updated only for an existing cita in state
  \<open>Programada\<close>; otherwise the cita (or \<open>None\<close>) is returned and nothing changes.
  The second part is about tables without the key 0, as \<open>autoincrement\<close> produces
  them: \<open>if exclude_id:\<close> does not exclude the cita being moved when its id is 0.
\<close>

theorem reprogramar_cita_availability_first:
  fixes commit_ok d cita_id nueva_fecha_hora
  defines "res \<equiv> reprogramar_cita commit_ok d cita_id nueva_fecha_hora"
  defines "taken \<equiv> \<exists>c \<in> set (citas d). id_cita c \<noteq> cita_id
                      \<and> fecha_hora_programada c = nueva_fecha_hora
                      \<and> estado_cita c = ''Programada''"
  defines "free \<equiv> 0 \<notin> id_cita ` set (citas d)
                   \<and> \<not> (\<exists>c \<in> set (citas d). id_cita c \<noteq> cita_id
                            \<and> fecha_hora_programada c = nueva_fecha_hora
                            \<and> estado_cita c = ''Programada'')"
  defines "d_new \<equiv> d\<lparr>citas := update_first (\<lambda>c. id_cita c = cita_id)
                         (\<lambda>c. c\<lparr>fecha_hora_programada := nueva_fecha_hora\<rparr>) (citas d)\<rparr>"
  shows "(taken \<longrightarrow> res = Inr (d, None))
    \<and> (free \<and> cita_get d cita_id = None \<longrightarrow> res = Inr (d, None))
    \<and> (\<forall>c. free \<and> cita_get d cita_id = Some c \<and> estado_cita c \<noteq> ''Programada''
          \<longrightarrow> res = Inr (d, Some c))
    \<and> (\<forall>c. free \<and> cita_get d cita_id = Some c \<and> estado_cita c = ''Programada''
              \<and> commit_ok d_new
          \<longrightarrow> res = Inr (d_new, Some (c\<lparr>fecha_hora_programada := nueva_fecha_hora\<rparr>))
              \<and> cita_get d_new cita_id
                  = Some (c\<lparr>fecha_hora_programada := nueva_fecha_hora\<rparr>))"
proof -
  have occupied: "\<not> verificar_disponibilidad d nueva_fecha_hora (Some cita_id)" if taken
    using that unfolding verificar_disponibilidad_iff taken_def by auto
  have avail: "verificar_disponibilidad d nueva_fecha_hora (Some cita_id)" if free
  proof (cases "cita_id = 0")
    case True
    with that have "\<forall>c \<in> set (citas d). id_cita c \<noteq> cita_id"
      by (auto simp: free_def)
    with that show ?thesis
      unfolding verificar_disponibilidad_iff free_def by auto
  next
    case False
    with that show ?thesis
      unfolding verificar_disponibilidad_iff free_def by auto
  qed
  show ?thesis
  proof (intro conjI allI impI)
    assume taken
    with occupied show "res = Inr (d, None)"
      by (simp add: res_def reprogramar_cita_def)
  next
    assume "free \<and> cita_get d cita_id = None"
    with avail show "res = Inr (d, None)"
      by (simp add: res_def reprogramar_cita_def)
  next
    fix c
    assume "free \<and> cita_get d cita_id = Some c \<and> estado_cita c \<noteq> ''Programada''"
    with avail show "res = Inr (d, Some c)"
      by (simp add: res_def reprogramar_cita_def)
  next
    fix c
    assume h: "free \<and> cita_get d cita_id = Some c \<and> estado_cita c = ''Programada''
              \<and> commit_ok d_new"
    with avail show "res = Inr (d_new, Some (c\<lparr>fecha_hora_programada := nueva_fecha_hora\<rparr>))"
      by (simp add: res_def reprogramar_cita_def commit_def d_new_def)
    from h show "cita_get d_new cita_id
                  = Some (c\<lparr>fecha_hora_programada := nueva_fecha_hora\<rparr>)"
      by (simp add: cita_get_def d_new_def find_update_first)
  qed
qed

theorem reprogramar_cita_availability_first_witness:
  "0 \<notin> id_cita ` set (citas db1)
   \<and> reprogramar_cita (\<lambda>_. True) db1 1 700 = Inr (db1, None)
   \<and> reprogramar_cita (\<lambda>_. True) db1 9 700 = Inr (db1, None)
   \<and> reprogramar_cita (\<lambda>_. True) db1 9 800 = Inr (db1, None)
   \<and> reprogramar_cita (\<lambda>_. True) db1 2 800
     = Inr (db1, Some \<lparr>id_cita = 2, fecha_hora_programada = 600, estado_cita = ''Cancelada''\<rparr>)
   \<and> reprogramar_cita (\<lambda>_. True) db1 1 800
     = Inr (db1\<lparr>citas := update_first (\<lambda>c. id_cita c = 1)
                         (\<lambda>c. c\<lparr>fecha_hora_programada := 800\<rparr>) (citas db1)\<rparr>,
            Some \<lparr>id_cita = 1, fecha_hora_programada = 800, estado_cita = ''Programada''\<rparr>)"
proof -
  let ?c1 = "\<lparr>id_cita = 1, fecha_hora_programada = 500, estado_cita = ''Programada''\<rparr>"
  let ?c2 = "\<lparr>id_cita = 2, fecha_hora_programada = 600, estado_cita = ''Cancelada''\<rparr>"
  let ?c3 = "\<lparr>id_cita = 3, fecha_hora_programada = 700, estado_cita = ''Programada''\<rparr>"
  have rows: "citas db1 = [?c1, ?c2, ?c3]"
    by (simp add: db1_def)
  have keys: "0 \<notin> id_cita ` set (citas db1)"
    by (simp add: rows)
  have taken1: "\<exists>c \<in> set (citas db1). id_cita c \<noteq> 1 \<and> fecha_hora_programada c = 700
                  \<and> estado_cita c = ''Programada''"
    by (rule bexI [of _ ?c3]) (simp_all add: rows)
  have taken9: "\<exists>c \<in> set (citas db1). id_cita c \<noteq> 9 \<and> fecha_hora_programada c = 700
                  \<and> estado_cita c = ''Programada''"
    by (rule bexI [of _ ?c3]) (simp_all add: rows)
  have free: "0 \<notin> id_cita ` set (citas db1)
       \<and> \<not> (\<exists>c \<in> set (citas db1). id_cita c \<noteq> i \<and> fecha_hora_programada c = 800
                  \<and> estado_cita c = ''Programada'')" for i
    by (simp add: rows)
  have g1: "cita_get db1 1 = Some ?c1" and g2: "cita_get db1 2 = Some ?c2"
    and g9: "cita_get db1 9 = None"
    by (simp_all add: cita_get_def rows)
  note main = reprogramar_cita_availability_first [where commit_ok = "\<lambda>_. True"]
  have a: "reprogramar_cita (\<lambda>_. True) db1 1 700 = Inr (db1, None)"
    by (rule main [THEN conjunct1, THEN mp, OF taken1])
  have b: "reprogramar_cita (\<lambda>_. True) db1 9 700 = Inr (db1, None)"
    by (rule main [THEN conjunct1, THEN mp, OF taken9])
  have c: "reprogramar_cita (\<lambda>_. True) db1 9 800 = Inr (db1, None)"
    by (rule main [THEN conjunct2, THEN conjunct1, THEN mp]) (intro conjI free g9)
  have e: "reprogramar_cita (\<lambda>_. True) db1 2 800 = Inr (db1, Some ?c2)"
    by (rule main [THEN conjunct2, THEN conjunct2, THEN conjunct1, rule_format])
       (intro conjI free g2, simp)
  have f: "reprogramar_cita (\<lambda>_. True) db1 1 800
     = Inr (db1\<lparr>citas := update_first (\<lambda>c. id_cita c = 1)
                         (\<lambda>c. c\<lparr>fecha_hora_programada := 800\<rparr>) (citas db1)\<rparr>,
            Some (?c1\<lparr>fecha_hora_programada := 800\<rparr>))"
    by (rule main [THEN conjunct2, THEN conjunct2, THEN conjunct2, rule_format, THEN conjunct1])
       (intro conjI free g1, simp_all)
  have u: "?c1\<lparr>fecha_hora_programada := 800\<rparr>
     = \<lparr>id_cita = 1, fecha_hora_programada = 800, estado_cita = ''Programada''\<rparr>"
    by simp
  show ?thesis
    by (intro conjI keys a b c e f [unfolded u])
qed

section \<open>Creating an attention request\<close>

text \<open>
  Claim C7. The route that creates a solicitud answers 400 and creates nothing for a
  missing mascota or recepcionista, and on success creates the solicitud in state
  \<open>Pendiente\<close> with \<open>fecha_hora_solicitud\<close> filled in, the current time being the
  default. The code evaluated on a request without \<open>fecha_hora_solicitud\<close>, at clock
  value 1000: the answer is 201, the state is \<open>Pendiente\<close>, and the stored
  \<open>fecha_hora_solicitud\<close> is \<open>None\<close>, not the current time.
\<close>

theorem create_solicitud_atencion_fecha_left_empty:
  "create_solicitud_atencion accept_all 1000 db1 solicitud_sin_fecha
     = (db1\<lparr>solicitudes := solicitudes db1 @
               [\<lparr>id_solicitud = 2, sol_id_mascota = Some 1, sol_id_recepcionista = Some 1,
                 fecha_hora_solicitud = None, tipo_solicitud = ''Consulta normal'',
                 solicitud_estado = ''Pendiente''\<rparr>]\<rparr>,
        Response 201
          \<lparr>id_solicitud = 2, sol_id_mascota = Some 1, sol_id_recepcionista = Some 1,
            fecha_hora_solicitud = None, tipo_solicitud = ''Consulta normal'',
            solicitud_estado = ''Pendiente''\<rparr>)"
proof -
  have m: "mascota_get db1 1 = Some \<lparr>id_mascota = 1\<rparr>"
    by (simp add: mascota_get_def db1_def)
  have r: "recepcionista_get db1 1 = Some \<lparr>id_recepcionista = 1, rec_id_usuario = 2\<rparr>"
    by (simp add: recepcionista_get_def db1_def)
  have f: "dict_get [''fecha_hora_solicitud'' \<mapsto> None] ''fecha_hora_solicitud'' (Some (1000::int))
           = None"
    by (simp add: dict_get_def)
  have k: "next_id (map id_solicitud (solicitudes db1)) = 2"
    by (simp add: db1_def next_id_def)
  show ?thesis
    by (simp add: create_solicitud_atencion_def solicitud_sin_fecha_def m r f k
          solicitud_atencion_create_def commit_def accept_all_def Let_def)
qed



section \<open>Creating a consultation\<close>

text \<open>
  Claim C1, as stated, counts the diagnosis table among the four tables that a
  successful call writes. A successful call on \<open>db1\<close>: the answer is 201 and the
  diagnosis table is the one the call started with.
\<close>

theorem create_consulta_leaves_diagnosticos:
  "snd (create_consulta accept_all 1000 db1 consulta_control)
     = Response 201
         \<lparr>id_consulta = 1, con_id_triaje = 1, con_id_veterinario = 1,
          tipo_consulta = ''Control general'', fecha_consulta = Some 900,
          motivo_consulta = None, sintomas_observados = None,
          diagnostico_preliminar = None, con_observaciones = None,
          condicion_general = ''Buena'', es_seguimiento = False\<rparr>
   \<and> diagnosticos (fst (create_consulta accept_all 1000 db1 consulta_control))
     = diagnosticos db1"
proof -
  have tri: "triaje_get db1 1 = Some \<lparr>id_triaje = 1, tri_id_solicitud = 1, peso_mascota = 1250\<rparr>"
    by (simp add: triaje_get_def db1_def)
  have vet: "veterinario_get db1 1
      = Some \<lparr>id_veterinario = 1, vet_id_usuario = 1, disposicion = ''Libre''\<rparr>"
    by (simp add: veterinario_get_def db1_def)
  have fresh: "get_by_triaje db1 1 = None"
    by (simp add: get_by_triaje_def db1_def)
  have key: "next_id (map id_consulta (consultas db1)) = 1"
    by (simp add: next_id_def db1_def)
  note descr = validate_descripcion_consulta [simplified]
  have rows: "veterinarios db1
        = [\<lparr>id_veterinario = 1, vet_id_usuario = 1, disposicion = ''Libre''\<rparr>]"
    "solicitudes db1
        = [\<lparr>id_solicitud = 1, sol_id_mascota = Some 1, sol_id_recepcionista = Some 1,
            fecha_hora_solicitud = Some 100, tipo_solicitud = ''Consulta normal'',
            solicitud_estado = ''Completada''\<rparr>]"
    "consultas db1 = []" "historiales db1 = []" "diagnosticos db1 = []"
    by (simp_all add: db1_def)
  have run: "create_consulta accept_all 1000 db1 consulta_control
     = (fst (create_consulta accept_all 1000 db1 consulta_control),
        Response 201
         \<lparr>id_consulta = 1, con_id_triaje = 1, con_id_veterinario = 1,
          tipo_consulta = ''Control general'', fecha_consulta = Some 900,
          motivo_consulta = None, sintomas_observados = None,
          diagnostico_preliminar = None, con_observaciones = None,
          condicion_general = ''Buena'', es_seguimiento = False\<rparr>)
     \<and> diagnosticos (fst (create_consulta accept_all 1000 db1 consulta_control)) = []"
    by (simp add: create_consulta_def consulta_control_def tri vet fresh key dict_get_def
          consulta_create_def cambiar_disposicion_def cambiar_estado_def
          refresh_def disposicion_enum_def estado_solicitud_enum_def
          add_evento_consulta_def add_evento_def historial_clinico_create_def
          validate_tipo_consulta_medica descr
          solicitud_atencion_get_def veterinario_get_def
          commit_def accept_all_def Let_def rows next_id_def)
  have status: "snd (create_consulta accept_all 1000 db1 consulta_control)
     = Response 201
         \<lparr>id_consulta = 1, con_id_triaje = 1, con_id_veterinario = 1,
          tipo_consulta = ''Control general'', fecha_consulta = Some 900,
          motivo_consulta = None, sintomas_observados = None,
          diagnostico_preliminar = None, con_observaciones = None,
          condicion_general = ''Buena'', es_seguimiento = False\<rparr>"
    by (subst run [THEN conjunct1]) (rule snd_conv)
  have untouched: "diagnosticos (fst (create_consulta accept_all 1000 db1 consulta_control))
     = diagnosticos db1"
    by (simp only: run [THEN conjunct2] rows)
  show ?thesis
    by (intro conjI status untouched)
qed



text \<open>
  Claim C1, amended. When the triaje, the veterinarian and the solicitud of the triaje
  exist, the solicitud names a mascota and the triaje has no consulta yet, the call
  makes four writes in this order, each with a commit of its own: the new consulta, the
  disposition of the veterinarian (\<open>Ocupado\<close>), the state of the solicitud
  (\<open>En atencion\<close>) and a historial event; the diagnosis table is never written. The
  call answers 201 when the four commits are accepted. When a commit is refused the
  answer is 500 and the database is the state after the last accepted commit, so the
  earlier writes stay in place.
\<close>

theorem create_consulta_independent_commits:
  fixes commit_ok now d consulta_data t v s m
  assumes tri: "triaje_get d (cc_id_triaje consulta_data) = Some t"
    and vet: "veterinario_get d (cc_id_veterinario consulta_data) = Some v"
    and fresh: "get_by_triaje d (cc_id_triaje consulta_data) = None"
    and sol: "solicitud_atencion_get d (tri_id_solicitud t) = Some s"
    and pet: "sol_id_mascota s = Some m"
  defines "res \<equiv> create_consulta commit_ok now d consulta_data"
  shows "\<exists>c h d1 d2 d3 d4.
      d1 = d\<lparr>consultas := consultas d @ [c]\<rparr>
    \<and> con_id_triaje c = cc_id_triaje consulta_data
    \<and> con_id_veterinario c = cc_id_veterinario consulta_data
    \<and> d2 = d1\<lparr>veterinarios := veterinarios d2\<rparr>
    \<and> veterinario_get d2 (cc_id_veterinario consulta_data) = Some (v\<lparr>disposicion := ''Ocupado''\<rparr>)
    \<and> d3 = d2\<lparr>solicitudes := solicitudes d3\<rparr>
    \<and> solicitud_atencion_get d3 (tri_id_solicitud t)
        = Some (s\<lparr>solicitud_estado := ''En atencion''\<rparr>)
    \<and> d4 = d3\<lparr>historiales := historiales d3 @ [h]\<rparr>
    \<and> his_id_consulta h = Some (id_consulta c)
    \<and> his_id_mascota h = m
    \<and> diagnosticos d4 = diagnosticos d
    \<and> (commit_ok d1 \<and> commit_ok d2 \<and> commit_ok d3 \<and> commit_ok d4
          \<longrightarrow> res = (d4, Response 201 c))
    \<and> (\<not> commit_ok d1 \<longrightarrow> res = (d, HTTPException 500 ''Error al crear consulta: ''))
    \<and> (commit_ok d1 \<and> \<not> commit_ok d2
          \<longrightarrow> res = (d1, HTTPException 500 ''Error al crear consulta: ''))
    \<and> (commit_ok d1 \<and> commit_ok d2 \<and> \<not> commit_ok d3
          \<longrightarrow> res = (d2, HTTPException 500 ''Error al crear consulta: ''))
    \<and> (commit_ok d1 \<and> commit_ok d2 \<and> commit_ok d3 \<and> \<not> commit_ok d4
          \<longrightarrow> res = (d3, HTTPException 500 ''Error al crear consulta: ''))"
proof -
  define vid where "vid = cc_id_veterinario consulta_data"
  define sid where "sid = tri_id_solicitud t"
  define descripcion where "descripcion = ''Consulta: '' @ (cc_tipo_consulta consulta_data
      @ ''. Motivo: '' @ str_or (cc_motivo_consulta consulta_data) ''No especificado'')"
  define c where "c = \<lparr>id_consulta = next_id (map id_consulta (consultas d)),
                     con_id_triaje = cc_id_triaje consulta_data,
                     con_id_veterinario = cc_id_veterinario consulta_data,
                     tipo_consulta = cc_tipo_consulta consulta_data,
                     fecha_consulta = cc_fecha_consulta consulta_data,
                     motivo_consulta = cc_motivo_consulta consulta_data,
                     sintomas_observados = cc_sintomas_observados consulta_data,
                     diagnostico_preliminar = cc_diagnostico_preliminar consulta_data,
                     con_observaciones = cc_observaciones consulta_data,
                     condicion_general = cc_condicion_general consulta_data,
                     es_seguimiento = cc_es_seguimiento consulta_data\<rparr>"
  define d1 where "d1 = d\<lparr>consultas := consultas d @ [c]\<rparr>"
  define d2 where "d2 = d1\<lparr>veterinarios := update_first (\<lambda>v. id_veterinario v = vid)
                            (\<lambda>v. v\<lparr>disposicion := ''Ocupado''\<rparr>) (veterinarios d1)\<rparr>"
  define d3 where "d3 = d2\<lparr>solicitudes := update_first (\<lambda>s. id_solicitud s = sid)
                            (\<lambda>s. s\<lparr>solicitud_estado := ''En atencion''\<rparr>) (solicitudes d2)\<rparr>"
  define h where "h = \<lparr>id_historial = next_id (map id_historial (historiales d3)),
                     his_id_mascota = m,
                     his_id_consulta = Some (id_consulta c),
                     his_id_diagnostico = None,
                     his_id_tratamiento = None,
                     his_id_veterinario = Some vid,
                     fecha_evento = Some now,
                     tipo_evento = ''Consulta medica'',
                     edad_meses = None,
                     descripcion_evento = strip descripcion,
                     peso_momento = (if peso_mascota t \<noteq> 0 then Some (peso_mascota t) else None),
                     his_observaciones = None\<rparr>"
  define d4 where "d4 = d3\<lparr>historiales := historiales d3 @ [h]\<rparr>"
  have step1: "consulta_create commit_ok d consulta_data (cc_fecha_consulta consulta_data)
                 = (if commit_ok d1 then Inr (d1, c) else Inl DBError)"
    by (simp add: consulta_create_def Let_def commit_def d1_def c_def)
  have vet1: "veterinario_get d1 vid = Some v"
    using vet by (simp add: veterinario_get_def d1_def vid_def)
  have step2: "cambiar_disposicion commit_ok d1 vid ''Ocupado''
                 = (if commit_ok d2 then (d2, Inr (Some (v\<lparr>disposicion := ''Ocupado''\<rparr>)))
                    else (d1, Inl DBError))"
    using vet1
    by (simp add: cambiar_disposicion_def commit_def d2_def refresh_def disposicion_enum_def)
  have sol2: "solicitud_atencion_get d2 sid = Some s"
    using sol by (simp add: solicitud_atencion_get_def d2_def d1_def sid_def)
  have step3: "cambiar_estado commit_ok d2 sid ''En atencion''
                 = (if commit_ok d3
                    then (d3, Inr (Some (s\<lparr>solicitud_estado := ''En atencion''\<rparr>)))
                    else (d2, Inl DBError))"
    using sol2
    by (simp add: cambiar_estado_def commit_def d3_def refresh_def estado_solicitud_enum_def)
  have step4: "add_evento_consulta commit_ok now d3 (sol_id_mascota s) (id_consulta c) vid
                 descripcion (if peso_mascota t \<noteq> 0 then Some (peso_mascota t) else None)
                 = (if commit_ok d4 then Inr (d4, h) else Inl DBError)"
    by (simp add: add_evento_consulta_def pet validate_tipo_consulta_medica
          validate_descripcion_consulta [of "cc_tipo_consulta consulta_data
             @ ''. Motivo: '' @ str_or (cc_motivo_consulta consulta_data) ''No especificado''",
             folded descripcion_def]
          add_evento_def dict_get_def historial_clinico_create_def Let_def commit_def
          d4_def h_def)
  have fecha: "dict_get [''fecha_consulta'' \<mapsto> cc_fecha_consulta consulta_data]
                 ''fecha_consulta'' (Some now) = cc_fecha_consulta consulta_data"
    by (simp add: dict_get_def)
  have unfold: "res =
     (case consulta_create commit_ok d consulta_data (cc_fecha_consulta consulta_data) of
        Inl e \<Rightarrow> (d, HTTPException 500 ''Error al crear consulta: '')
      | Inr (d1, nueva_consulta) \<Rightarrow>
     (case cambiar_disposicion commit_ok d1 vid ''Ocupado'' of
        (d2, Inl e) \<Rightarrow> (d2, HTTPException 500 ''Error al crear consulta: '')
      | (d2, Inr _) \<Rightarrow>
     (case solicitud_atencion_get d2 sid of
        None \<Rightarrow> (d2, Response 201 nueva_consulta)
      | Some solicitud_obj \<Rightarrow>
     (case cambiar_estado commit_ok d2 sid ''En atencion'' of
        (d3, Inl e) \<Rightarrow> (d3, HTTPException 500 ''Error al crear consulta: '')
      | (d3, Inr _) \<Rightarrow>
     (case add_evento_consulta commit_ok now d3
             (sol_id_mascota solicitud_obj) (id_consulta nueva_consulta) vid descripcion
             (if peso_mascota t \<noteq> 0 then Some (peso_mascota t) else None) of
        Inl e \<Rightarrow> (d3, HTTPException 500 ''Error al crear consulta: '')
      | Inr (d4, _) \<Rightarrow> (d4, Response 201 nueva_consulta))))))"
    unfolding res_def create_consulta_def Let_def fecha
    by (simp only: tri vet fresh option.case vid_def sid_def descripcion_def append_assoc)
  have o_all: "commit_ok d1 \<and> commit_ok d2 \<and> commit_ok d3 \<and> commit_ok d4
          \<longrightarrow> res = (d4, Response 201 c)"
    unfolding unfold by (simp add: step1 step2 sol2 step3 step4)
  have o0: "\<not> commit_ok d1 \<longrightarrow> res = (d, HTTPException 500 ''Error al crear consulta: '')"
    unfolding unfold by (simp add: step1)
  have o1: "commit_ok d1 \<and> \<not> commit_ok d2
          \<longrightarrow> res = (d1, HTTPException 500 ''Error al crear consulta: '')"
    unfolding unfold by (simp add: step1 step2)
  have o2: "commit_ok d1 \<and> commit_ok d2 \<and> \<not> commit_ok d3
          \<longrightarrow> res = (d2, HTTPException 500 ''Error al crear consulta: '')"
    unfolding unfold by (simp add: step1 step2 sol2 step3)
  have o3: "commit_ok d1 \<and> commit_ok d2 \<and> commit_ok d3 \<and> \<not> commit_ok d4
          \<longrightarrow> res = (d3, HTTPException 500 ''Error al crear consulta: '')"
    unfolding unfold by (simp add: step1 step2 sol2 step3 step4)
  have p1: "d1 = d\<lparr>consultas := consultas d @ [c]\<rparr>"
    by (simp add: d1_def)
  have p2: "con_id_triaje c = cc_id_triaje consulta_data"
    and p3: "con_id_veterinario c = cc_id_veterinario consulta_data"
    by (simp_all add: c_def)
  have p4: "d2 = d1\<lparr>veterinarios := veterinarios d2\<rparr>"
    by (simp add: d2_def)
  have p5: "veterinario_get d2 (cc_id_veterinario consulta_data)
              = Some (v\<lparr>disposicion := ''Ocupado''\<rparr>)"
    using vet1 by (simp add: veterinario_get_def d2_def find_update_first vid_def)
  have p6: "d3 = d2\<lparr>solicitudes := solicitudes d3\<rparr>"
    by (simp add: d3_def)
  have p7: "solicitud_atencion_get d3 (tri_id_solicitud t)
        = Some (s\<lparr>solicitud_estado := ''En atencion''\<rparr>)"
    using sol2 by (simp add: solicitud_atencion_get_def d3_def find_update_first sid_def)
  have p8: "d4 = d3\<lparr>historiales := historiales d3 @ [h]\<rparr>"
    by (simp add: d4_def)
  have p9: "his_id_consulta h = Some (id_consulta c)" and p10: "his_id_mascota h = m"
    by (simp_all add: h_def)
  have p11: "diagnosticos d4 = diagnosticos d"
    by (simp add: d4_def d3_def d2_def d1_def)
  show ?thesis
    by (rule exI [of _ c], rule exI [of _ h], rule exI [of _ d1], rule exI [of _ d2],
        rule exI [of _ d3], rule exI [of _ d4])
       (intro conjI p1 p2 p3 p4 p5 p6 p7 p8 p9 p10 p11 o_all o0 o1 o2 o3)
qed

theorem create_consulta_independent_commits_witness:
  "triaje_get db1 (cc_id_triaje consulta_control)
     = Some \<lparr>id_triaje = 1, tri_id_solicitud = 1, peso_mascota = 1250\<rparr>
   \<and> veterinario_get db1 (cc_id_veterinario consulta_control)
     = Some \<lparr>id_veterinario = 1, vet_id_usuario = 1, disposicion = ''Libre''\<rparr>
   \<and> get_by_triaje db1 (cc_id_triaje consulta_control) = None
   \<and> snd (create_consulta reject_ocupado 1000 db1 consulta_control)
     = HTTPException 500 ''Error al crear consulta: ''
   \<and> length (consultas (fst (create_consulta reject_ocupado 1000 db1 consulta_control)))
     = Suc (length (consultas db1))"
proof -
  let ?t = "\<lparr>id_triaje = 1, tri_id_solicitud = 1, peso_mascota = 1250\<rparr>"
  let ?v = "\<lparr>id_veterinario = 1, vet_id_usuario = 1, disposicion = ''Libre''\<rparr>"
  let ?s = "\<lparr>id_solicitud = 1, sol_id_mascota = Some 1, sol_id_recepcionista = Some 1,
            fecha_hora_solicitud = Some 100, tipo_solicitud = ''Consulta normal'',
            solicitud_estado = ''Completada''\<rparr>"
  let ?res = "create_consulta reject_ocupado 1000 db1 consulta_control"
  have tri: "triaje_get db1 (cc_id_triaje consulta_control) = Some ?t"
    by (simp add: triaje_get_def db1_def consulta_control_def)
  have vet: "veterinario_get db1 (cc_id_veterinario consulta_control) = Some ?v"
    by (simp add: veterinario_get_def db1_def consulta_control_def)
  have fresh: "get_by_triaje db1 (cc_id_triaje consulta_control) = None"
    by (simp add: get_by_triaje_def db1_def)
  have sol: "solicitud_atencion_get db1 (tri_id_solicitud ?t) = Some ?s"
    by (simp add: solicitud_atencion_get_def db1_def)
  have pet: "sol_id_mascota ?s = Some 1"
    by simp
  have libre: "veterinarios db1 = [?v]"
    by (simp add: db1_def)
  have failed: "snd ?res = HTTPException 500 ''Error al crear consulta: ''
      \<and> length (consultas (fst ?res)) = Suc (length (consultas db1))"
    using create_consulta_independent_commits [OF tri vet fresh sol pet,
            where commit_ok = reject_ocupado and now = 1000]
  proof (elim exE conjE)
    fix c h d1 d2 d3 d4
    assume p1: "d1 = db1\<lparr>consultas := consultas db1 @ [c]\<rparr>"
      and p5: "veterinario_get d2 (cc_id_veterinario consulta_control)
                 = Some (?v\<lparr>disposicion := ''Ocupado''\<rparr>)"
      and o1: "reject_ocupado d1 \<and> \<not> reject_ocupado d2
                 \<longrightarrow> ?res = (d1, HTTPException 500 ''Error al crear consulta: '')"
    have a1: "reject_ocupado d1"
      by (simp add: p1 reject_ocupado_def libre)
    have "?v\<lparr>disposicion := ''Ocupado''\<rparr> \<in> set (veterinarios d2)"
      using find_in_set [OF p5 [unfolded veterinario_get_def]] by (rule conjunct1)
    then have "\<exists>v \<in> set (veterinarios d2). disposicion v = ''Ocupado''"
      by (rule bexI [rotated]) simp
    then have a2: "\<not> reject_ocupado d2"
      by (simp add: reject_ocupado_def list_all_iff)
    have r: "?res = (d1, HTTPException 500 ''Error al crear consulta: '')"
      by (rule mp [OF o1 conjI [OF a1 a2]])
    have s1: "snd ?res = HTTPException 500 ''Error al crear consulta: ''"
      by (subst r) (rule snd_conv)
    have "fst ?res = d1"
      by (subst r) (rule fst_conv)
    then have s2: "length (consultas (fst ?res)) = Suc (length (consultas db1))"
      by (simp add: p1)
    show ?thesis
      by (intro conjI s1 s2)
  qed
  show ?thesis
    by (intro conjI tri vet fresh failed [THEN conjunct1] failed [THEN conjunct2])
qed

end
